theory Spec2Isabelle
  imports Main "HOL-Library.Word"
begin

section \<open>The probe engine of icmpenguin (ProbeManager.cpp, ProbeManager.h)\<close>

text \<open>
  A shallow embedding of \<^verbatim>\<open>ProbeManager\<close>. Every member function becomes a HOL function
  that takes the engine and returns the engine it leaves behind. What the operating
  system answers (the return value and \<^verbatim>\<open>errno\<close> of a system call, the clock, the
  datagram a \<^verbatim>\<open>recvmsg\<close> yields) is an argument of the function that asks for it. What
  the engine does to the outside (callback invocations, closed descriptors, datagrams
  handed to \<^verbatim>\<open>sendto\<close>, registrations with epoll) is logged in fields of the engine
  record that the C++ object does not have.

  The C++ \<^verbatim>\<open>int\<close> and \<^verbatim>\<open>long\<close> are modelled by \<open>int\<close>. Where the code stores a
  \<^verbatim>\<open>long\<close> in an \<^verbatim>\<open>int\<close>, the model cuts the value to 32 bits (\<open>narrow_int\<close>);
  sizes and counters otherwise stay inside the range of their C++ types. The division and
  remainder operators are the truncating ones of C++. Bytes are \<open>8 word\<close>, the 16-bit
  header fields \<open>16 word\<close>.
\<close>

subsection \<open>C++ arithmetic\<close>

type_synonym byte = "8 word"

definition c_div :: "int \<Rightarrow> int \<Rightarrow> int" where
  "c_div a b = sgn a * sgn b * (\<bar>a\<bar> div \<bar>b\<bar>)"

definition c_mod :: "int \<Rightarrow> int \<Rightarrow> int" where
  "c_mod a b = a - b * c_div a b"

text \<open>
  The conversion of a \<^verbatim>\<open>long\<close> of 64 bits (the 64-bit ABIs) to \<^verbatim>\<open>int\<close>: the low 32
  bits, read as signed.
\<close>

definition narrow_int :: "int \<Rightarrow> int" where
  "narrow_int x = sint (word_of_int x :: 32 word)"

subsection \<open>Exceptions\<close>

text \<open>
  The exceptions that leave the engine's functions: \<^verbatim>\<open>std::length_error\<close> from
  \<^verbatim>\<open>vector::resize\<close>, and \<^verbatim>\<open>std::bad_function_call\<close> from calling a
  \<^verbatim>\<open>std::function\<close> that holds nothing.
\<close>

datatype error = LengthError | BadFunctionCall

subsection \<open>Constants of ProbeManager.h and of the system headers\<close>

definition SEND_PROBE_ERROR :: int where "SEND_PROBE_ERROR = -1"
definition SEND_PROBE_SUCCESS :: int where "SEND_PROBE_SUCCESS = 0"
definition ICMP_HEADER_SIZE :: int where "ICMP_HEADER_SIZE = 8"
definition INCOMING_BUFFER_SIZE :: nat where "INCOMING_BUFFER_SIZE = 2048"
definition IPV4_OVERHEAD :: int where "IPV4_OVERHEAD = 20"
definition IPV6_OVERHEAD :: int where "IPV6_OVERHEAD = 40"
definition UDP_OVERHEAD :: int where "UDP_OVERHEAD = 8"

definition AF_INET :: int where "AF_INET = 2"
definition AF_INET6 :: int where "AF_INET6 = 10"
definition EMSGSIZE :: int where "EMSGSIZE = 90"
definition ICMP_ECHO :: byte where "ICMP_ECHO = 8"
definition ICMPV6_ECHO_REQUEST :: byte where "ICMPV6_ECHO_REQUEST = 128"
definition INET_ADDRSTRLEN :: nat where "INET_ADDRSTRLEN = 16"
definition INET6_ADDRSTRLEN :: nat where "INET6_ADDRSTRLEN = 46"

subsection \<open>Time values\<close>

record timeval =
  tv_sec :: int
  tv_usec :: int

text \<open>The macro \<^verbatim>\<open>timersub(a, b, res)\<close> of \<^verbatim>\<open>sys/time.h\<close>.\<close>

definition timersub :: "timeval \<Rightarrow> timeval \<Rightarrow> timeval" where
  "timersub a b =
     (let s = tv_sec a - tv_sec b; u = tv_usec a - tv_usec b
      in if u < 0 then \<lparr>tv_sec = s - 1, tv_usec = u + 1000000\<rparr>
         else \<lparr>tv_sec = s, tv_usec = u\<rparr>)"

definition TIMEVAL_TO_MS :: "timeval \<Rightarrow> int" where
  "TIMEVAL_TO_MS x = tv_sec x * 1000 + c_div (tv_usec x) 1000"

definition TIMEVAL_TO_USEC :: "timeval \<Rightarrow> int" where
  "TIMEVAL_TO_USEC x = tv_sec x * 1000000 + tv_usec x"

subsection \<open>The probe record\<close>

text \<open>
  \<^verbatim>\<open>enum class ProbeType { ICMP = 1, UDP = 2 }\<close>. The enumeration has \<^verbatim>\<open>int\<close>
  underneath, and both the cast in \<^verbatim>\<open>sendProbe\<close> and a value-initialised record can
  give it another value: \<open>OtherType\<close>.
\<close>

datatype ProbeType = ICMP | UDP | OtherType int

datatype ProbeStatus = WAITING | SUCCESS | TIMEOUT | ERROR | FATAL_ERROR

record ProbeContext =
  id_p :: int
  remote_ip :: string
  offender :: string
  packet_data :: "byte list"
  reply_data :: "byte list"
  ttl :: int
  reply_ttl :: int
  timeout :: int
  overhead :: int
  probe_type :: ProbeType
  tv_sent :: timeval
  tv_received :: timeval
  tv_diff :: timeval
  sequence :: int
  error_msg :: string
  err_no :: int
  err_code :: int
  err_type :: int
  err_info :: int
  status :: ProbeStatus

definition zero_timeval :: timeval where
  "zero_timeval = \<lparr>tv_sec = 0, tv_usec = 0\<rparr>"

subsection \<open>Socket addresses and the engine\<close>

text \<open>
  A \<^verbatim>\<open>sockaddr_storage\<close> read as \<^verbatim>\<open>sockaddr_in\<close> or \<^verbatim>\<open>sockaddr_in6\<close>: the
  family, the port as the 16-bit value \<^verbatim>\<open>htons\<close> returned, the address bytes.
\<close>

record sockaddr_storage =
  ss_family :: int
  sin_port :: "16 word"
  sin_addr :: "byte list"

text \<open>
  \<^verbatim>\<open>htons\<close> takes a \<^verbatim>\<open>uint16_t\<close>: its \<^verbatim>\<open>int\<close> argument is reduced modulo \<open>2^16\<close>.
  The value it returns lies in memory most significant byte first; \<open>net16_bytes\<close> is
  that memory image.
\<close>

definition htons :: "int \<Rightarrow> 16 word" where
  "htons x = word_of_int x"

definition net16_bytes :: "16 word \<Rightarrow> byte list" where
  "net16_bytes w = [ucast (drop_bit 8 w), ucast w]"

text \<open>
  The engine. \<open>probes\<close> is the \<^verbatim>\<open>unordered_map\<close> from descriptor to probe, as an
  association list with one entry per key. The order of the list stands for the order in
  which a range-for visits the entries; \<^verbatim>\<open>unordered_map\<close> leaves that order open, and the
  model puts a new key last.

  \<open>callback_set\<close> says whether the member \<^verbatim>\<open>trigger_callback\<close> holds a function. The
  constructor stores it in its last lines; when the destination address does not parse,
  the constructor returns before that and the member stays empty. \<open>epoll_fd\<close> and
  \<open>wakeup_fd\<close> are -1 until \<^verbatim>\<open>setup_epoll\<close> of the worker has run; the record shows an
  engine after \<^verbatim>\<open>start()\<close>, with what \<^verbatim>\<open>setup_epoll\<close> left there.

  The last four fields log the effects on the outside: the probes handed to the callback
  (oldest first), the descriptors closed, the descriptors registered with epoll, and the
  datagrams given to \<^verbatim>\<open>sendto\<close>.
\<close>

record ProbeManager =
  probes :: "(int \<times> ProbeContext) list"
  ident :: int
  remote_addr :: sockaddr_storage
  source_addr :: sockaddr_storage
  remote_ip_mgr :: string
  source_ip_mgr :: string
  callback_set :: bool
  epoll_fd :: int
  wakeup_fd :: int
  delivered :: "ProbeContext list"
  closed_fds :: "int list"
  epoll_set :: "int list"
  sent :: "(int \<times> sockaddr_storage \<times> byte list) list"

text \<open>
  \<^verbatim>\<open>trigger_callback(callback_obj, probe)\<close>, a call of the \<^verbatim>\<open>std::function\<close> member: it
  runs the callback, or throws when the member is empty.
\<close>

definition trigger_callback :: "ProbeContext \<Rightarrow> ProbeManager \<Rightarrow> error + ProbeManager" where
  "trigger_callback probe m =
     (if callback_set m then Inr (m\<lparr>delivered := delivered m @ [probe]\<rparr>)
      else Inl BadFunctionCall)"

text \<open>\<^verbatim>\<open>close(fd)\<close>.\<close>

definition close_fd :: "int \<Rightarrow> ProbeManager \<Rightarrow> ProbeManager" where
  "close_fd fd m = m\<lparr>closed_fds := closed_fds m @ [fd]\<rparr>"

subsection \<open>init_packet_data\<close>

text \<open>\<^verbatim>\<open>memcpy(data + i, src, n)\<close> on a vector \<open>data\<close>.\<close>

definition memcpy :: "byte list \<Rightarrow> nat \<Rightarrow> byte list \<Rightarrow> nat \<Rightarrow> byte list" where
  "memcpy data i src n = take i data @ take n src @ drop (i + n) data"

text \<open>
  The loop \<^verbatim>\<open>for (int i = data_offset; i < packet_size; i += pattern_len)\<close>, which runs
  under \<^verbatim>\<open>if (pattern_len > 0)\<close>.
\<close>

function fill_pattern :: "byte list \<Rightarrow> byte list \<Rightarrow> int \<Rightarrow> int \<Rightarrow> int \<Rightarrow> byte list" where
  "fill_pattern data pattern pattern_len packet_size i =
     (if 0 < pattern_len \<and> i < packet_size then
        let chunk_size = packet_size - i;
            chunk_size = (if chunk_size > pattern_len then pattern_len else chunk_size)
        in fill_pattern (memcpy data (nat i) pattern (nat chunk_size))
             pattern pattern_len packet_size (i + pattern_len)
      else data)"
  by pat_completeness auto
termination
  by (relation "measure (\<lambda>(data, pattern, pattern_len, packet_size, i). nat (packet_size - i))") auto

declare fill_pattern.simps [simp del]

text \<open>
  The echo header written through \<^verbatim>\<open>struct icmphdr\<close> or \<^verbatim>\<open>struct icmp6hdr\<close>: type,
  code, identifier and sequence; the two checksum bytes keep the zero of the
  \<^verbatim>\<open>memset\<close>.
\<close>

definition echo_header :: "byte \<Rightarrow> int \<Rightarrow> int \<Rightarrow> byte list" where
  "echo_header ty idn sq = [ty, 0, 0, 0] @ net16_bytes (htons idn) @ net16_bytes (htons sq)"

text \<open>
  \<^verbatim>\<open>init_packet_data\<close>. \<^verbatim>\<open>resize(packet_size)\<close> converts the \<^verbatim>\<open>int\<close> to \<^verbatim>\<open>size_t\<close>;
  a negative size becomes a count beyond \<^verbatim>\<open>max_size()\<close> and \<^verbatim>\<open>resize\<close> throws
  \<^verbatim>\<open>std::length_error\<close>.
\<close>

definition init_packet_data ::
  "ProbeManager \<Rightarrow> ProbeContext \<Rightarrow> int \<Rightarrow> byte list \<Rightarrow> int \<Rightarrow> error + ProbeContext" where
  "init_packet_data m probe psize pattern pattern_len =
     (let data_offset = (if probe_type probe = ICMP then ICMP_HEADER_SIZE else 0);
          packet_size = (if probe_type probe = ICMP \<and> psize < ICMP_HEADER_SIZE
                         then ICMP_HEADER_SIZE else psize)
      in if packet_size < 0 then Inl LengthError
         else
           let data = replicate (nat packet_size) (0 :: byte);
               data = (if probe_type probe = ICMP then
                         (if ss_family (remote_addr m) = AF_INET
                          then memcpy data 0 (echo_header ICMP_ECHO (ident m) (sequence probe)) 8
                          else memcpy data 0 (echo_header ICMPV6_ECHO_REQUEST (ident m) (sequence probe)) 8)
                       else data);
               data = (if pattern_len > 0
                       then fill_pattern data pattern pattern_len packet_size data_offset
                       else data)
           in Inr (probe\<lparr>packet_data := data\<rparr>))"

subsection \<open>send_probe\<close>

text \<open>\<^verbatim>\<open>probes[fd] = probe\<close>: the entry of \<open>fd\<close> is overwritten, or a new one is made.\<close>

fun map_assign :: "int \<Rightarrow> ProbeContext \<Rightarrow> (int \<times> ProbeContext) list \<Rightarrow> (int \<times> ProbeContext) list" where
  "map_assign fd probe [] = [(fd, probe)]"
| "map_assign fd probe ((k, v) # rest) =
     (if k = fd then (fd, probe) # rest else (k, v) # map_assign fd probe rest)"

text \<open>
  \<^verbatim>\<open>add_socket\<close>: store the probe, register the descriptor. \<^verbatim>\<open>epoll_ctl\<close> fails on an
  \<open>epoll_fd\<close> of -1 and registers nothing then; the code does not look at its result.
  (\<^verbatim>\<open>wakeup_event\<close> writes a token to the eventfd, which the model does not keep.)
\<close>

definition add_socket :: "int \<Rightarrow> ProbeContext \<Rightarrow> ProbeManager \<Rightarrow> ProbeManager" where
  "add_socket fd probe m =
     m\<lparr>probes := map_assign fd probe (probes m),
       epoll_set := (if 0 \<le> epoll_fd m then epoll_set m @ [fd] else epoll_set m)\<rparr>"

text \<open>
  What the system answers during one \<^verbatim>\<open>send_probe\<close>: the return values and \<^verbatim>\<open>errno\<close> of
  \<^verbatim>\<open>socket\<close>, \<^verbatim>\<open>bind\<close> and \<^verbatim>\<open>sendto\<close>, the clock, and \<^verbatim>\<open>strerror\<close>.
\<close>

record send_env =
  socket_ret :: int
  socket_errno :: int
  bind_ret :: int
  bind_errno :: int
  sendto_ret :: int
  sendto_errno :: int
  send_now :: timeval
  strerror :: "int \<Rightarrow> string"

text \<open>
  The record \<^verbatim>\<open>send_probe\<close> starts from: the designated initialisers, every other
  member zero or empty, \<open>status\<close> at its default \<open>WAITING\<close>.
\<close>

definition new_probe :: "ProbeManager \<Rightarrow> int \<Rightarrow> ProbeType \<Rightarrow> int \<Rightarrow> int \<Rightarrow> int \<Rightarrow> ProbeContext" where
  "new_probe m id' probe_type' sequence' ttl' timeout' =
     \<lparr>id_p = id',
      remote_ip = remote_ip_mgr m,
      offender = [],
      packet_data = [],
      reply_data = [],
      ttl = ttl',
      reply_ttl = 0,
      timeout = timeout',
      overhead = (if probe_type' = UDP then UDP_OVERHEAD else 0) +
                 (if ss_family (remote_addr m) = AF_INET then IPV4_OVERHEAD else IPV6_OVERHEAD),
      probe_type = probe_type',
      tv_sent = zero_timeval,
      tv_received = zero_timeval,
      tv_diff = zero_timeval,
      sequence = c_mod sequence' 0xffff,
      error_msg = [],
      err_no = 0,
      err_code = 0,
      err_type = 0,
      err_info = 0,
      status = WAITING\<rparr>"

text \<open>
  \<^verbatim>\<open>trigger_callback(callback_obj, probe); return SEND_PROBE_ERROR;\<close> as
  \<open>send_probe\<close> has it three times.
\<close>

definition report_error :: "ProbeContext \<Rightarrow> ProbeManager \<Rightarrow> error + (int \<times> ProbeManager)" where
  "report_error probe m =
     (case trigger_callback probe m of
        Inl e \<Rightarrow> Inl e
      | Inr m' \<Rightarrow> Inr (SEND_PROBE_ERROR, m'))"

text \<open>
  \<^verbatim>\<open>send_probe\<close>. The result is the returned \<^verbatim>\<open>int\<close> and the engine, or the exception
  that \<^verbatim>\<open>init_packet_data\<close> or the call of the callback lets escape. \<^verbatim>\<open>init_socket\<close>
  only calls \<^verbatim>\<open>setsockopt\<close> and logs; it changes neither the probe nor the engine and
  has no part in the model.
\<close>

definition send_probe ::
  "send_env \<Rightarrow> int \<Rightarrow> ProbeType \<Rightarrow> int \<Rightarrow> int \<Rightarrow> int \<Rightarrow> int \<Rightarrow> int \<Rightarrow> bool \<Rightarrow> byte list \<Rightarrow> int
     \<Rightarrow> ProbeManager \<Rightarrow> error + (int \<times> ProbeManager)" where
  "send_probe env id' probe_type' port sequence' ttl' timeout' psize detect_mtu pattern pattern_len m =
     (let probe = new_probe m id' probe_type' sequence' ttl' timeout';
          sock = socket_ret env
      in if sock < 0 then
           let probe = probe\<lparr>error_msg := ''Error creating socket: '' @ strerror env (socket_errno env)\<rparr>;
               probe = probe\<lparr>status := FATAL_ERROR\<rparr>
           in report_error probe m
         else if source_ip_mgr m \<noteq> [] \<and> bind_ret env < 0 then
           let probe = probe\<lparr>error_msg := ''Error binding socket: '' @ strerror env (bind_errno env)\<rparr>;
               probe = probe\<lparr>status := FATAL_ERROR\<rparr>;
               m = close_fd sock m
           in report_error probe m
         else
           case init_packet_data m probe psize pattern pattern_len of
             Inl e \<Rightarrow> Inl e
           | Inr probe \<Rightarrow>
               let local_remote_addr = remote_addr m;
                   local_remote_addr =
                     (if probe_type' = UDP \<and> port > 0
                      then local_remote_addr\<lparr>sin_port := htons port\<rparr>
                      else local_remote_addr);
                   probe = probe\<lparr>tv_sent := send_now env\<rparr>;
                   m = m\<lparr>sent := sent m @ [(sock, local_remote_addr, packet_data probe)]\<rparr>
               in if sendto_ret env < 0 \<and> sendto_errno env \<noteq> EMSGSIZE then
                    let m = close_fd sock m;
                        probe = probe\<lparr>error_msg := ''Error sending probe: '' @ strerror env (sendto_errno env)\<rparr>;
                        probe = probe\<lparr>status := FATAL_ERROR\<rparr>
                    in report_error probe m
                  else Inr (SEND_PROBE_SUCCESS, add_socket sock probe m))"

subsection \<open>The sweeps over the table\<close>

definition force_timeouts :: "ProbeManager \<Rightarrow> ProbeManager" where
  "force_timeouts m =
     m\<lparr>probes := map (\<lambda>(fd, probe). (fd, if status probe = WAITING
                                           then probe\<lparr>status := TIMEOUT\<rparr> else probe))
                     (probes m)\<rparr>"

text \<open>
  \<^verbatim>\<open>clean_probes\<close>: the iterator walks the entries; an entry that is not \<open>WAITING\<close> is
  taken out of epoll, closed and erased, the others stay.
\<close>

fun clean_entries :: "(int \<times> ProbeContext) list \<Rightarrow> ProbeManager \<Rightarrow> ProbeManager" where
  "clean_entries [] m = m\<lparr>probes := []\<rparr>"
| "clean_entries ((fd, probe) # rest) m =
     (if status probe \<noteq> WAITING then
        clean_entries rest (close_fd fd (m\<lparr>epoll_set := removeAll fd (epoll_set m)\<rparr>))
      else
        (let m' = clean_entries rest m in m'\<lparr>probes := (fd, probe) # probes m'\<rparr>))"

definition clean_probes :: "ProbeManager \<Rightarrow> ProbeManager" where
  "clean_probes m = clean_entries (probes m) m"

text \<open>\<^verbatim>\<open>check_timeouts\<close>; \<open>tv_now\<close> is what \<^verbatim>\<open>gettimeofday\<close> returns.\<close>

definition check_timeouts :: "timeval \<Rightarrow> ProbeManager \<Rightarrow> ProbeManager" where
  "check_timeouts tv_now m =
     m\<lparr>probes := map (\<lambda>(fd, probe).
                       (fd, if status probe = WAITING
                               \<and> TIMEVAL_TO_MS (timersub tv_now (tv_sent probe)) > timeout probe
                            then probe\<lparr>status := TIMEOUT\<rparr> else probe))
                     (probes m)\<rparr>"

text \<open>
  \<^verbatim>\<open>send_callbacks\<close>: the range-for over the table. An exception of the callback ends
  the loop and leaves the function.
\<close>

fun callback_entries :: "(int \<times> ProbeContext) list \<Rightarrow> ProbeManager \<Rightarrow> error + ProbeManager" where
  "callback_entries [] m = Inr m"
| "callback_entries ((fd, probe) # rest) m =
     (if status probe \<noteq> WAITING then
        (case trigger_callback probe m of
           Inl e \<Rightarrow> Inl e
         | Inr m' \<Rightarrow> callback_entries rest m')
      else callback_entries rest m)"

definition send_callbacks :: "ProbeManager \<Rightarrow> error + ProbeManager" where
  "send_callbacks m = callback_entries (probes m) m"

text \<open>
  \<^verbatim>\<open>get_min_wait_time\<close>: the loop body as a step on \<^verbatim>\<open>min_wait_time\<close>, folded over the
  table from \<open>-1\<close>. \<^verbatim>\<open>probe.second.timeout - TIMEVAL_TO_MS(tv_diff)\<close> is a \<^verbatim>\<open>long\<close>,
  and \<^verbatim>\<open>int timeout\<close> takes its low 32 bits.
\<close>

definition min_wait_step :: "timeval \<Rightarrow> int \<times> ProbeContext \<Rightarrow> int \<Rightarrow> int" where
  "min_wait_step tv_now entry min_wait_time =
     (if status (snd entry) = WAITING then
        let timeout' = narrow_int (timeout (snd entry)
                                     - TIMEVAL_TO_MS (timersub tv_now (tv_sent (snd entry))))
        in if min_wait_time = -1 \<or> timeout' < min_wait_time
           then (if timeout' < 0 then 0 else timeout')
           else min_wait_time
      else min_wait_time)"

definition get_min_wait_time :: "timeval \<Rightarrow> ProbeManager \<Rightarrow> int" where
  "get_min_wait_time tv_now m = fold (min_wait_step tv_now) (probes m) (-1)"

definition get_queue_size :: "ProbeManager \<Rightarrow> int" where
  "get_queue_size m = int (length (probes m))"

subsection \<open>read_data\<close>

text \<open>
  The extended error of an error-queue message, and the control messages \<^verbatim>\<open>read_data\<close>
  tells apart: \<^verbatim>\<open>IP_RECVERR\<close> or \<^verbatim>\<open>IPV6_RECVERR\<close> (with the offender's address as
  \<^verbatim>\<open>inet_ntop\<close> prints it), \<^verbatim>\<open>IP_TTL\<close> or \<^verbatim>\<open>IPV6_HOPLIMIT\<close>, and any other.
\<close>

record sock_extended_err =
  ee_errno :: int
  ee_origin :: int
  ee_code :: int
  ee_info :: int

datatype cmsghdr = RecvErr sock_extended_err string | RecvTtl int | OtherCmsg

text \<open>
  One \<^verbatim>\<open>recvmsg\<close> with \<^verbatim>\<open>MSG_DONTWAIT\<close>: it fails (a negative return, nothing to read),
  or it yields a datagram and its control messages.
\<close>

datatype recv_result = RecvFail | Recv "byte list" "cmsghdr list"

text \<open>
  What the system answers during one \<^verbatim>\<open>read_data\<close>: the clock, the receive from the error
  queue, the plain receive, and the timestamp of \<^verbatim>\<open>ioctl(SIOCGSTAMP)\<close> (\<open>None\<close> when the
  \<^verbatim>\<open>ioctl\<close> fails and writes nothing).
\<close>

record read_env =
  read_now :: timeval
  errqueue_recv :: recv_result
  data_recv :: recv_result
  siocgstamp :: "timeval option"

text \<open>\<^verbatim>\<open>vector::resize(n)\<close> and \<^verbatim>\<open>string::resize(n)\<close>: cut, or fill up with zeros.\<close>

definition resize :: "nat \<Rightarrow> 'a \<Rightarrow> 'a list \<Rightarrow> 'a list" where
  "resize n z xs = take n xs @ replicate (n - length xs) z"

definition stamp_received :: "timeval option \<Rightarrow> ProbeContext \<Rightarrow> ProbeContext" where
  "stamp_received st probe = (case st of None \<Rightarrow> probe | Some tv \<Rightarrow> probe\<lparr>tv_received := tv\<rparr>)"

text \<open>The loop over \<^verbatim>\<open>CMSG_FIRSTHDR\<close>, \<^verbatim>\<open>CMSG_NXTHDR\<close>.\<close>

fun walk_cmsgs :: "int \<Rightarrow> timeval option \<Rightarrow> cmsghdr list \<Rightarrow> ProbeContext \<Rightarrow> ProbeContext" where
  "walk_cmsgs family st [] probe = probe"
| "walk_cmsgs family st (RecvErr err offender_text # rest) probe =
     (let addr_len = (if family = AF_INET then INET_ADDRSTRLEN else INET6_ADDRSTRLEN);
          probe = probe\<lparr>offender := resize addr_len (CHR 0x00) offender_text\<rparr>;
          probe = probe\<lparr>err_no := ee_errno err\<rparr>;
          probe = probe\<lparr>err_code := ee_code err\<rparr>;
          probe = probe\<lparr>err_type := ee_origin err\<rparr>;
          probe = probe\<lparr>err_info := ee_info err\<rparr>;
          probe = probe\<lparr>status := ERROR\<rparr>;
          probe = stamp_received st probe
      in walk_cmsgs family st rest probe)"
| "walk_cmsgs family st (RecvTtl t # rest) probe =
     walk_cmsgs family st rest (probe\<lparr>reply_ttl := t\<rparr>)"
| "walk_cmsgs family st (OtherCmsg # rest) probe = walk_cmsgs family st rest probe"

text \<open>
  One round of the \<^verbatim>\<open>for\<close> loop of \<^verbatim>\<open>read_data\<close>, up to the test for \<open>ERROR\<close>.
  \<open>is_data\<close> is \<^verbatim>\<open>flag == 0\<close>. \<^verbatim>\<open>recvmsg\<close> copies what fits into the buffer and
  returns that count as \<^verbatim>\<open>data_len\<close>.
\<close>

definition recv_pass :: "int \<Rightarrow> timeval option \<Rightarrow> bool \<Rightarrow> recv_result \<Rightarrow> ProbeContext \<Rightarrow> ProbeContext" where
  "recv_pass family st is_data r probe =
     (case r of
        RecvFail \<Rightarrow> probe
      | Recv bytes cmsgs \<Rightarrow>
          let data_len = min (length bytes) (length (reply_data probe));
              probe = probe\<lparr>reply_data := memcpy (reply_data probe) 0 bytes data_len\<rparr>;
              probe = walk_cmsgs family st cmsgs probe
          in if is_data then
               let probe = probe\<lparr>status := SUCCESS\<rparr>;
                   probe = stamp_received st probe
               in probe\<lparr>reply_data := resize data_len 0 (reply_data probe)\<rparr>
             else probe)"

text \<open>The record \<^verbatim>\<open>probes[fd]\<close> makes for a descriptor the table does not hold.\<close>

definition empty_probe :: ProbeContext where
  "empty_probe =
     \<lparr>id_p = 0, remote_ip = [], offender = [], packet_data = [], reply_data = [],
      ttl = 0, reply_ttl = 0, timeout = 0, overhead = 0, probe_type = OtherType 0,
      tv_sent = zero_timeval, tv_received = zero_timeval, tv_diff = zero_timeval,
      sequence = 0, error_msg = [], err_no = 0, err_code = 0, err_type = 0, err_info = 0,
      status = WAITING\<rparr>"

definition lookup_probe :: "int \<Rightarrow> ProbeManager \<Rightarrow> ProbeContext" where
  "lookup_probe fd m = (case map_of (probes m) fd of None \<Rightarrow> empty_probe | Some probe \<Rightarrow> probe)"

definition read_probe :: "int \<Rightarrow> read_env \<Rightarrow> ProbeContext \<Rightarrow> ProbeContext" where
  "read_probe family env probe =
     (let probe = probe\<lparr>tv_received := read_now env\<rparr>;
          probe = probe\<lparr>status := TIMEOUT\<rparr>;
          probe = probe\<lparr>reply_data := resize INCOMING_BUFFER_SIZE 0 (reply_data probe)\<rparr>;
          probe = recv_pass family (siocgstamp env) False (errqueue_recv env) probe;
          probe = (if status probe = ERROR then probe
                   else recv_pass family (siocgstamp env) True (data_recv env) probe)
      in probe\<lparr>tv_diff := timersub (tv_received probe) (tv_sent probe)\<rparr>)"

text \<open>
  \<^verbatim>\<open>read_data(fd)\<close>: \<open>read_probe\<close> is the body, working on the reference
  \<^verbatim>\<open>probes[fd]\<close>.
\<close>

definition read_data :: "read_env \<Rightarrow> int \<Rightarrow> ProbeManager \<Rightarrow> ProbeManager" where
  "read_data env fd m =
     m\<lparr>probes := map_assign fd (read_probe (ss_family (remote_addr m)) env (lookup_probe fd m))
                     (probes m)\<rparr>"

subsection \<open>The worker\<close>

text \<open>
  One event of \<^verbatim>\<open>epoll_wait\<close>: the wake notifier, or a readable socket together with
  what the system answers to the \<^verbatim>\<open>read_data\<close> it triggers. One iteration of the loop
  is the events of its \<^verbatim>\<open>epoll_wait\<close> and the clock of its \<^verbatim>\<open>check_timeouts\<close>.
\<close>

datatype epoll_event = WakeupEvent | SocketEvent int read_env

record iteration =
  events :: "epoll_event list"
  sweep_now :: timeval

fun handle_events :: "epoll_event list \<Rightarrow> ProbeManager \<Rightarrow> ProbeManager" where
  "handle_events [] m = m"
| "handle_events (WakeupEvent # rest) m = handle_events rest m"
| "handle_events (SocketEvent fd env # rest) m = handle_events rest (read_data env fd m)"

text \<open>
  The body of the loop. An exception of the callback leaves \<^verbatim>\<open>handler\<close>, the function
  of the worker thread, and with it ends the process.
\<close>

definition loop_body :: "iteration \<Rightarrow> ProbeManager \<Rightarrow> error + ProbeManager" where
  "loop_body it m =
     (case send_callbacks (check_timeouts (sweep_now it) (handle_events (events it) m)) of
        Inl e \<Rightarrow> Inl e
      | Inr m' \<Rightarrow> Inr (clean_probes m'))"

text \<open>
  \<^verbatim>\<open>while (running.load())\<close>: the iterations the worker runs until it reads \<open>running\<close>
  as false are the list \<open>its\<close>; the worker cannot tell the flag's next value, the
  schedule can.
\<close>

fun worker_loop :: "iteration list \<Rightarrow> ProbeManager \<Rightarrow> error + ProbeManager" where
  "worker_loop [] m = Inr m"
| "worker_loop (it # its) m =
     (case loop_body it m of
        Inl e \<Rightarrow> Inl e
      | Inr m' \<Rightarrow> worker_loop its m')"

text \<open>What \<^verbatim>\<open>handler\<close> does after the loop (closing the notifier and epoll apart).\<close>

definition handler_exit :: "ProbeManager \<Rightarrow> ProbeManager" where
  "handler_exit m = clean_probes (force_timeouts m)"

text \<open>
  \<^verbatim>\<open>handler\<close>; \<open>setup_ok\<close> says that \<^verbatim>\<open>setup_epoll\<close> got both descriptors. \<^verbatim>\<open>stop()\<close>
  sets \<open>running\<close> to false, wakes the worker and joins it: it returns when \<open>handler\<close>
  has.
\<close>

definition handler :: "bool \<Rightarrow> iteration list \<Rightarrow> ProbeManager \<Rightarrow> error + ProbeManager" where
  "handler setup_ok its m =
     (if \<not> setup_ok then Inr m
      else case worker_loop its m of
             Inl e \<Rightarrow> Inl e
           | Inr m' \<Rightarrow> Inr (handler_exit m'))"

subsection \<open>Notions of the specification\<close>

text \<open>
  Time as the specification speaks of it. A \<^verbatim>\<open>timeval\<close> of \<^verbatim>\<open>gettimeofday\<close> has its
  microseconds in \<open>0 ..< 1000000\<close>; it stands for a number of microseconds; the time
  from \<open>tv_sent\<close> to \<open>tv_now\<close> in whole milliseconds is the difference of the two,
  divided by 1000 and rounded down. The time a probe has left at \<open>tv_now\<close> is its
  timeout less that time, and not below zero.
\<close>

definition valid_timeval :: "timeval \<Rightarrow> bool" where
  "valid_timeval tv = (0 \<le> tv_usec tv \<and> tv_usec tv < 1000000)"

definition usec_of :: "timeval \<Rightarrow> int" where
  "usec_of tv = tv_sec tv * 1000000 + tv_usec tv"

definition elapsed_ms :: "timeval \<Rightarrow> timeval \<Rightarrow> int" where
  "elapsed_ms tv_now sent_at = (usec_of tv_now - usec_of sent_at) div 1000"

definition remaining_ms :: "timeval \<Rightarrow> ProbeContext \<Rightarrow> int" where
  "remaining_ms tv_now probe = max 0 (timeout probe - elapsed_ms tv_now (tv_sent probe))"

definition waiting_probes :: "ProbeManager \<Rightarrow> ProbeContext list" where
  "waiting_probes m = filter (\<lambda>probe. status probe = WAITING) (map snd (probes m))"

text \<open>
  The remaining time of a probe fits the \<^verbatim>\<open>int\<close> of \<open>get_min_wait_time\<close>: the clock
  is less than about 24.8 days away from the probe's deadline, in either direction.
\<close>

definition fits_int :: "timeval \<Rightarrow> ProbeContext \<Rightarrow> bool" where
  "fits_int tv_now probe =
     (- (2 ^ 31) \<le> timeout probe - elapsed_ms tv_now (tv_sent probe)
      \<and> timeout probe - elapsed_ms tv_now (tv_sent probe) < 2 ^ 31)"

text \<open>What the loop of \<open>get_min_wait_time\<close> computes for one \<open>WAITING\<close> probe.\<close>

definition clamped_wait :: "timeval \<Rightarrow> ProbeContext \<Rightarrow> int" where
  "clamped_wait tv_now probe =
     max 0 (narrow_int (timeout probe - TIMEVAL_TO_MS (timersub tv_now (tv_sent probe))))"

text \<open>
  The bytes of a packet from \<open>off\<close> on are the pattern repeated, the last chunk cut
  short; with an empty pattern they are zero.
\<close>

definition pattern_filled :: "byte list \<Rightarrow> nat \<Rightarrow> byte list \<Rightarrow> bool" where
  "pattern_filled packet off pattern =
     (\<forall>j \<in> {off ..< length packet}.
        packet ! j = (if pattern = [] then 0 else pattern ! ((j - off) mod length pattern)))"

text \<open>
  The echo header as the specification lays it out: type 8 (IPv4) or 128 (IPv6), code 0,
  two checksum bytes left zero, then identifier and sequence as 16-bit values, most
  significant byte first.
\<close>

definition echo_header_bytes :: "int \<Rightarrow> int \<Rightarrow> int \<Rightarrow> byte list" where
  "echo_header_bytes family idn sq =
     [if family = AF_INET then 8 else 128, 0, 0, 0,
      word_of_int (idn mod 65536 div 256), word_of_int (idn mod 256),
      word_of_int (sq mod 65536 div 256), word_of_int (sq mod 256)]"

text \<open>
  The address \<open>send_probe\<close> hands to \<^verbatim>\<open>sendto\<close>: its local copy of \<open>remote_addr\<close>, with
  the port written in for a UDP probe with a positive port.
\<close>

definition destination :: "ProbeManager \<Rightarrow> ProbeType \<Rightarrow> int \<Rightarrow> sockaddr_storage" where
  "destination m probe_type' port =
     (if probe_type' = UDP \<and> port > 0
      then (remote_addr m)\<lparr>sin_port := htons port\<rparr> else remote_addr m)"

text \<open>\<^verbatim>\<open>sendto\<close> fails with an \<^verbatim>\<open>errno\<close> other than \<^verbatim>\<open>EMSGSIZE\<close>.\<close>

definition sendto_fatal :: "send_env \<Rightarrow> bool" where
  "sendto_fatal env = (sendto_ret env < 0 \<and> sendto_errno env \<noteq> EMSGSIZE)"

definition expected_overhead :: "ProbeType \<Rightarrow> int \<Rightarrow> int" where
  "expected_overhead ty family =
     (if ty = UDP then 8 else 0) + (if family = AF_INET then 20 else 40)"


text \<open>
  The engines a run can reach. It starts with an empty table and nothing delivered.
  Callers send probes; the worker runs iterations, and each socket event of an iteration
  is for a descriptor of the table (epoll reports registered descriptors only, and
  \<open>clean_probes\<close> takes a descriptor out of epoll when it erases its entry); the worker
  leaves the loop. A \<open>send_probe\<close> from another thread takes effect between two
  iterations: it holds the mutex while it changes the table, and it adds a \<open>WAITING\<close>
  entry only. A call or an iteration that ends in an exception reaches no engine.
\<close>

inductive reachable :: "ProbeManager \<Rightarrow> bool" where
  start: "probes m = [] \<Longrightarrow> delivered m = [] \<Longrightarrow> reachable m"
| send: "reachable m \<Longrightarrow>
         send_probe env id' probe_type' port sequence' ttl' timeout' psize detect_mtu
           pattern pattern_len m = Inr (r, m') \<Longrightarrow> reachable m'"
| iterate: "reachable m \<Longrightarrow>
            (\<forall>fd env. SocketEvent fd env \<in> set (events it) \<longrightarrow> fd \<in> fst ` set (probes m)) \<Longrightarrow>
            loop_body it m = Inr m' \<Longrightarrow> reachable m'"
| exit: "reachable m \<Longrightarrow> reachable (handler_exit m)"

definition probes_satisfy :: "(ProbeContext \<Rightarrow> bool) \<Rightarrow> ProbeManager \<Rightarrow> bool" where
  "probes_satisfy P m =
     ((\<forall>probe \<in> set (delivered m). P probe) \<and> (\<forall>entry \<in> set (probes m). P (snd entry)))"

text \<open>What holds of the record \<open>send_probe\<close> registers or hands to the callback.\<close>

definition created_by :: "ProbeManager \<Rightarrow> ProbeType \<Rightarrow> ProbeContext \<Rightarrow> bool" where
  "created_by m probe_type' probe =
     (overhead probe = expected_overhead probe_type' (ss_family (remote_addr m))
      \<and> probe_type probe = probe_type' \<and> reply_data probe = []
      \<and> (status probe = WAITING \<or> status probe = FATAL_ERROR))"

subsection \<open>Concrete engines and answers of the system\<close>

text \<open>
  An engine for \<^verbatim>\<open>127.0.0.1\<close> with no source address, started (epoll is descriptor 3,
  the notifier 4), before any probe.
\<close>

definition v4_engine :: ProbeManager where
  "v4_engine =
     \<lparr>probes = [], ident = 0x1234,
      remote_addr = \<lparr>ss_family = AF_INET, sin_port = 0, sin_addr = [127, 0, 0, 1]\<rparr>,
      source_addr = \<lparr>ss_family = 0, sin_port = 0, sin_addr = []\<rparr>,
      remote_ip_mgr = ''127.0.0.1'', source_ip_mgr = [],
      callback_set = True, epoll_fd = 3, wakeup_fd = 4,
      delivered = [], closed_fds = [], epoll_set = [], sent = []\<rparr>"

text \<open>
  The engine that \<^verbatim>\<open>create("not-an-ip", "")\<close> leaves, started. Both calls of
  \<^verbatim>\<open>try_init_addr\<close> fail: the second has zeroed \<open>remote_addr\<close> and set its family to
  \<^verbatim>\<open>AF_INET6\<close>. The constructor returns there, so the callback is not stored (and
  \<open>ident\<close> not drawn; 0 stands for whatever it holds).
\<close>

definition inert_engine :: ProbeManager where
  "inert_engine =
     \<lparr>probes = [], ident = 0,
      remote_addr = \<lparr>ss_family = AF_INET6, sin_port = 0, sin_addr = replicate 16 0\<rparr>,
      source_addr = \<lparr>ss_family = 0, sin_port = 0, sin_addr = []\<rparr>,
      remote_ip_mgr = ''not-an-ip'', source_ip_mgr = [],
      callback_set = False, epoll_fd = 3, wakeup_fd = 4,
      delivered = [], closed_fds = [], epoll_set = [], sent = []\<rparr>"

text \<open>Every call succeeds: the socket is descriptor 5, the clock shows 100 s.\<close>

definition ok_env :: send_env where
  "ok_env =
     \<lparr>socket_ret = 5, socket_errno = 0, bind_ret = 0, bind_errno = 0,
      sendto_ret = 8, sendto_errno = 0,
      send_now = \<lparr>tv_sec = 100, tv_usec = 0\<rparr>,
      strerror = (\<lambda>e. ''errno'')\<rparr>"

text \<open>\<^verbatim>\<open>sendto\<close> fails with \<^verbatim>\<open>EMSGSIZE\<close>, and with \<^verbatim>\<open>ENETUNREACH\<close> (101).\<close>

definition emsgsize_env :: send_env where
  "emsgsize_env = ok_env\<lparr>sendto_ret := -1, sendto_errno := EMSGSIZE\<rparr>"

definition enetunreach_env :: send_env where
  "enetunreach_env = ok_env\<lparr>sendto_ret := -1, sendto_errno := 101\<rparr>"

text \<open>
  The probe that \<^verbatim>\<open>send_probe(1, ICMP, 0, 7, 64, 1000, 8, false, "", 0)\<close> registers, and the
  engine with this one probe in flight.
\<close>

definition echo_probe :: ProbeContext where
  "echo_probe =
     \<lparr>id_p = 1, remote_ip = ''127.0.0.1'', offender = [],
      packet_data = [8, 0, 0, 0, 0x12, 0x34, 0, 7], reply_data = [],
      ttl = 64, reply_ttl = 0, timeout = 1000, overhead = 20, probe_type = ICMP,
      tv_sent = \<lparr>tv_sec = 100, tv_usec = 0\<rparr>,
      tv_received = \<lparr>tv_sec = 0, tv_usec = 0\<rparr>, tv_diff = \<lparr>tv_sec = 0, tv_usec = 0\<rparr>,
      sequence = 7, error_msg = [], err_no = 0, err_code = 0, err_type = 0, err_info = 0,
      status = WAITING\<rparr>"

definition one_waiting :: ProbeManager where
  "one_waiting =
     v4_engine\<lparr>probes := [(5, echo_probe)], epoll_set := [5],
               sent := [(5, remote_addr v4_engine, [8, 0, 0, 0, 0x12, 0x34, 0, 7])]\<rparr>"

text \<open>
  Answers to \<open>read_data\<close> 200 ms after the probe left: nothing to read on either
  queue; an echo reply on the data queue; a host-unreachable error (\<^verbatim>\<open>EHOSTUNREACH\<close>,
  113) on the error queue.
\<close>

definition nothing_to_read :: read_env where
  "nothing_to_read =
     \<lparr>read_now = \<lparr>tv_sec = 100, tv_usec = 200000\<rparr>,
      errqueue_recv = RecvFail, data_recv = RecvFail, siocgstamp = None\<rparr>"

definition echo_reply :: read_env where
  "echo_reply =
     \<lparr>read_now = \<lparr>tv_sec = 100, tv_usec = 200000\<rparr>,
      errqueue_recv = RecvFail,
      data_recv = Recv [0, 0, 0, 0, 0x12, 0x34, 0, 7] [RecvTtl 64],
      siocgstamp = Some \<lparr>tv_sec = 100, tv_usec = 150000\<rparr>\<rparr>"


text \<open>
  Iterations of the worker, all well before the probe's deadline at 101 s: one that sees
  the echo reply on descriptor 5, one that sees the error, one that finds descriptor 5
  readable with nothing to read, and the last one, woken by \<^verbatim>\<open>stop()\<close> through the
  notifier at 100.5 s.
\<close>

definition reply_iteration :: iteration where
  "reply_iteration =
     \<lparr>events = [SocketEvent 5 echo_reply], sweep_now = \<lparr>tv_sec = 100, tv_usec = 200000\<rparr>\<rparr>"


definition spurious_iteration :: iteration where
  "spurious_iteration =
     \<lparr>events = [SocketEvent 5 nothing_to_read], sweep_now = \<lparr>tv_sec = 100, tv_usec = 200000\<rparr>\<rparr>"

definition stop_iteration :: iteration where
  "stop_iteration = \<lparr>events = [WakeupEvent], sweep_now = \<lparr>tv_sec = 100, tv_usec = 500000\<rparr>\<rparr>"

text \<open>
  The engine the first of these iterations leaves when it starts from \<open>one_waiting\<close>:
  the probe answered, reported and reaped.
\<close>

definition answered_probe :: ProbeContext where
  "answered_probe =
     echo_probe\<lparr>reply_data := [0, 0, 0, 0, 0x12, 0x34, 0, 7], reply_ttl := 64,
                tv_received := \<lparr>tv_sec = 100, tv_usec = 150000\<rparr>,
                tv_diff := \<lparr>tv_sec = 0, tv_usec = 150000\<rparr>, status := SUCCESS\<rparr>"

definition answered :: ProbeManager where
  "answered =
     one_waiting\<lparr>probes := [], epoll_set := [], closed_fds := [5],
                 delivered := [answered_probe]\<rparr>"

text \<open>
  The clock stepped forward by 2147485 s (some 24.8 days) while the probe of
  \<open>one_waiting\<close> is in flight.
\<close>

definition stepped_clock :: timeval where
  "stepped_clock = \<lparr>tv_sec = 2147585, tv_usec = 0\<rparr>"

section \<open>Properties\<close>

subsection \<open>The table\<close>

lemma map_of_map_assign: "map_of (map_assign fd probe entries) fd = Some probe"
  by (induction entries) auto

lemma in_map_assign:
  "entry \<in> set (map_assign fd probe entries) \<Longrightarrow> entry = (fd, probe) \<or> entry \<in> set entries"
  by (induction entries) (auto split: if_splits)

lemma keys_map_assign:
  "fst ` set (map_assign fd probe entries) = insert fd (fst ` set entries)"
  by (induction entries) (force split: if_splits)+

lemma lookup_probe_in_table:
  assumes "fd \<in> fst ` set (probes m)"
  shows "(fd, lookup_probe fd m) \<in> set (probes m)"
proof -
  from assms obtain probe where "map_of (probes m) fd = Some probe"
    by (metis map_of_eq_None_iff not_Some_eq)
  then show ?thesis
    by (simp add: lookup_probe_def map_of_SomeD)
qed

subsection \<open>The call of the callback\<close>

lemma trigger_callback_set:
  "callback_set m \<Longrightarrow> trigger_callback probe m = Inr (m\<lparr>delivered := delivered m @ [probe]\<rparr>)"
  by (simp add: trigger_callback_def)

lemma trigger_callback_unset:
  "\<not> callback_set m \<Longrightarrow> trigger_callback probe m = Inl BadFunctionCall"
  by (simp add: trigger_callback_def)

lemma report_error_set:
  "callback_set m \<Longrightarrow>
   report_error probe m = Inr (SEND_PROBE_ERROR, m\<lparr>delivered := delivered m @ [probe]\<rparr>)"
  by (simp add: report_error_def trigger_callback_def)

lemma report_error_unset:
  "\<not> callback_set m \<Longrightarrow> report_error probe m = Inl BadFunctionCall"
  by (simp add: report_error_def trigger_callback_def)

lemma report_error_Inr:
  "report_error probe m = Inr (r, m') \<longleftrightarrow>
     callback_set m \<and> r = SEND_PROBE_ERROR \<and> m' = m\<lparr>delivered := delivered m @ [probe]\<rparr>"
  by (auto simp: report_error_def trigger_callback_def)

lemma callback_set_close_fd [simp]: "callback_set (close_fd fd m) = callback_set m"
  by (simp add: close_fd_def)

subsection \<open>The ways through send_probe\<close>

lemma init_packet_data_Inr:
  "init_packet_data m probe psize pattern pattern_len = Inr probe' \<Longrightarrow>
   \<exists>data. probe' = probe\<lparr>packet_data := data\<rparr>"
  unfolding init_packet_data_def Let_def
  by (auto split: if_splits)

lemma init_packet_data_total:
  "probe_type probe = ICMP \<or> 0 \<le> psize \<Longrightarrow>
   \<exists>data. init_packet_data m probe psize pattern pattern_len = Inr (probe\<lparr>packet_data := data\<rparr>)"
  unfolding init_packet_data_def Let_def
  by (auto simp add: ICMP_HEADER_SIZE_def)

lemma new_probe_fields [simp]:
  "probe_type (new_probe m id' probe_type' sequence' ttl' timeout') = probe_type'"
  "id_p (new_probe m id' probe_type' sequence' ttl' timeout') = id'"
  "status (new_probe m id' probe_type' sequence' ttl' timeout') = WAITING"
  "sequence (new_probe m id' probe_type' sequence' ttl' timeout') = c_mod sequence' 0xffff"
  by (simp_all add: new_probe_def)

lemma send_probe_no_socket:
  "socket_ret env < 0 \<Longrightarrow>
   send_probe env id' probe_type' port sequence' ttl' timeout' psize detect_mtu pattern pattern_len m =
     report_error
       ((new_probe m id' probe_type' sequence' ttl' timeout')
          \<lparr>error_msg := ''Error creating socket: '' @ strerror env (socket_errno env),
           status := FATAL_ERROR\<rparr>) m"
  by (simp add: send_probe_def Let_def)

lemma send_probe_no_bind:
  "0 \<le> socket_ret env \<Longrightarrow> source_ip_mgr m \<noteq> [] \<Longrightarrow> bind_ret env < 0 \<Longrightarrow>
   send_probe env id' probe_type' port sequence' ttl' timeout' psize detect_mtu pattern pattern_len m =
     report_error
       ((new_probe m id' probe_type' sequence' ttl' timeout')
          \<lparr>error_msg := ''Error binding socket: '' @ strerror env (bind_errno env),
           status := FATAL_ERROR\<rparr>) (close_fd (socket_ret env) m)"
  by (simp add: send_probe_def Let_def)

lemma send_probe_throws:
  "0 \<le> socket_ret env \<Longrightarrow> source_ip_mgr m = [] \<or> 0 \<le> bind_ret env \<Longrightarrow>
   init_packet_data m (new_probe m id' probe_type' sequence' ttl' timeout') psize pattern pattern_len = Inl e \<Longrightarrow>
   send_probe env id' probe_type' port sequence' ttl' timeout' psize detect_mtu pattern pattern_len m = Inl e"
  by (auto simp add: send_probe_def Let_def)

lemma send_probe_sendto_fatal:
  "0 \<le> socket_ret env \<Longrightarrow> source_ip_mgr m = [] \<or> 0 \<le> bind_ret env \<Longrightarrow>
   init_packet_data m (new_probe m id' probe_type' sequence' ttl' timeout') psize pattern pattern_len = Inr probe \<Longrightarrow>
   sendto_ret env < 0 \<Longrightarrow> sendto_errno env \<noteq> EMSGSIZE \<Longrightarrow>
   send_probe env id' probe_type' port sequence' ttl' timeout' psize detect_mtu pattern pattern_len m =
     report_error
       (probe\<lparr>tv_sent := send_now env,
              error_msg := ''Error sending probe: '' @ strerror env (sendto_errno env),
              status := FATAL_ERROR\<rparr>)
       (close_fd (socket_ret env)
          (m\<lparr>sent := sent m @ [(socket_ret env, destination m probe_type' port, packet_data probe)]\<rparr>))"
  by (auto simp add: send_probe_def Let_def destination_def)

lemma send_probe_registers:
  "0 \<le> socket_ret env \<Longrightarrow> source_ip_mgr m = [] \<or> 0 \<le> bind_ret env \<Longrightarrow>
   init_packet_data m (new_probe m id' probe_type' sequence' ttl' timeout') psize pattern pattern_len = Inr probe \<Longrightarrow>
   0 \<le> sendto_ret env \<or> sendto_errno env = EMSGSIZE \<Longrightarrow>
   send_probe env id' probe_type' port sequence' ttl' timeout' psize detect_mtu pattern pattern_len m =
     Inr (SEND_PROBE_SUCCESS,
          add_socket (socket_ret env) (probe\<lparr>tv_sent := send_now env\<rparr>)
            (m\<lparr>sent := sent m @ [(socket_ret env, destination m probe_type' port, packet_data probe)]\<rparr>))"
  by (auto simp add: send_probe_def Let_def destination_def)

text \<open>Every call of \<open>send_probe\<close> goes one of these five ways.\<close>

lemma send_probe_cases:
  obtains (no_socket) "socket_ret env < 0"
  | (no_bind) "0 \<le> socket_ret env" "source_ip_mgr m \<noteq> []" "bind_ret env < 0"
  | (throws) e where "0 \<le> socket_ret env" "source_ip_mgr m = [] \<or> 0 \<le> bind_ret env"
      "init_packet_data m (new_probe m id' probe_type' sequence' ttl' timeout')
         psize pattern pattern_len = Inl e"
  | (fatal) probe where "0 \<le> socket_ret env" "source_ip_mgr m = [] \<or> 0 \<le> bind_ret env"
      "init_packet_data m (new_probe m id' probe_type' sequence' ttl' timeout')
         psize pattern pattern_len = Inr probe"
      "sendto_ret env < 0" "sendto_errno env \<noteq> EMSGSIZE"
  | (registers) probe where "0 \<le> socket_ret env" "source_ip_mgr m = [] \<or> 0 \<le> bind_ret env"
      "init_packet_data m (new_probe m id' probe_type' sequence' ttl' timeout')
         psize pattern pattern_len = Inr probe"
      "0 \<le> sendto_ret env \<or> sendto_errno env = EMSGSIZE"
  by (cases "init_packet_data m (new_probe m id' probe_type' sequence' ttl' timeout')
               psize pattern pattern_len") force+

lemma send_echo_probe:
  "send_probe ok_env 1 ICMP 0 7 64 1000 8 False [] 0 v4_engine = Inr (SEND_PROBE_SUCCESS, one_waiting)"
  by code_simp

subsection \<open>The earliest deadline\<close>

lemma clamped_wait_nonneg: "0 \<le> clamped_wait tv_now probe"
  by (simp add: clamped_wait_def)

lemma min_wait_step_waiting:
  "status (snd entry) = WAITING \<Longrightarrow> acc = -1 \<or> 0 \<le> acc \<Longrightarrow>
   min_wait_step tv_now entry acc =
     (if acc = -1 then clamped_wait tv_now (snd entry)
      else min acc (clamped_wait tv_now (snd entry)))"
  by (auto simp: min_wait_step_def clamped_wait_def Let_def)

lemma min_wait_step_other:
  "status (snd entry) \<noteq> WAITING \<Longrightarrow> min_wait_step tv_now entry acc = acc"
  by (simp add: min_wait_step_def)

text \<open>
  The loop invariant: \<^verbatim>\<open>min_wait_time\<close> is \<open>-1\<close> until the first \<open>WAITING\<close> probe and
  the least clamped value seen from then on, so it is never \<open>-1\<close> again.
\<close>

lemma fold_min_wait_step:
  "acc = -1 \<or> 0 \<le> acc \<Longrightarrow>
   fold (min_wait_step tv_now) entries acc =
     (let ws = filter (\<lambda>probe. status probe = WAITING) (map snd entries)
      in if ws = [] then acc
         else if acc = -1 then Min (set (map (clamped_wait tv_now) ws))
         else min acc (Min (set (map (clamped_wait tv_now) ws))))"
proof (induction entries arbitrary: acc)
  case Nil
  then show ?case by simp
next
  case (Cons entry entries)
  show ?case
  proof (cases "status (snd entry) = WAITING")
    case False
    then show ?thesis
      using Cons by (simp add: min_wait_step_other Let_def)
  next
    case True
    let ?r = "clamped_wait tv_now (snd entry)"
    let ?acc' = "min_wait_step tv_now entry acc"
    have acc': "?acc' = (if acc = -1 then ?r else min acc ?r)"
      using True Cons.prems by (rule min_wait_step_waiting)
    have nonneg: "0 \<le> ?acc'"
      using Cons.prems clamped_wait_nonneg [of tv_now "snd entry"] by (auto simp: acc')
    then have ok: "?acc' = -1 \<or> 0 \<le> ?acc'" by simp
    have ne: "?acc' \<noteq> -1" using nonneg by simp
    let ?ws = "filter (\<lambda>probe. status probe = WAITING) (map snd entries)"
    show ?thesis
    proof (cases "?ws = []")
      case True
      with \<open>status (snd entry) = WAITING\<close> show ?thesis
        using Cons.IH [OF ok] by (simp add: Let_def acc')
    next
      case False
      let ?S = "set (map (clamped_wait tv_now) ?ws)"
      have fin: "finite ?S" by simp
      have nemp: "?S \<noteq> {}" using False by (metis set_empty map_is_Nil_conv)
      have ins: "Min (insert ?r ?S) = min ?r (Min ?S)"
        using fin nemp by (rule Min_insert)
      have step: "fold (min_wait_step tv_now) (entry # entries) acc = min ?acc' (Min ?S)"
        using Cons.IH [OF ok] False ne by (simp add: Let_def)
      have ws: "filter (\<lambda>probe. status probe = WAITING) (map snd (entry # entries)) = snd entry # ?ws"
        using \<open>status (snd entry) = WAITING\<close> by simp
      show ?thesis
        unfolding step Let_def ws
        using ins by (simp add: acc' min.assoc)
    qed
  qed
qed

lemma get_min_wait_time_clamped:
  "get_min_wait_time tv_now m =
     (if waiting_probes m = [] then -1
      else Min (set (map (clamped_wait tv_now) (waiting_probes m))))"
  using fold_min_wait_step [of "-1" tv_now "probes m"]
  by (simp add: get_min_wait_time_def waiting_probes_def Let_def)

text \<open>
  On the \<^verbatim>\<open>timeval\<close>s of \<^verbatim>\<open>gettimeofday\<close>, \<^verbatim>\<open>timersub\<close> and \<^verbatim>\<open>TIMEVAL_TO_MS\<close> give the
  elapsed time in whole milliseconds, also when the clock has gone backwards.
\<close>

lemma c_div_nonneg: "0 \<le> a \<Longrightarrow> c_div a 1000 = a div 1000"
  by (cases "a = 0") (simp_all add: c_div_def)

lemma timersub_ms:
  assumes "valid_timeval a" and "valid_timeval b"
  shows "TIMEVAL_TO_MS (timersub a b) = elapsed_ms a b"
proof -
  define s where "s = tv_sec a - tv_sec b"
  define u where "u = tv_usec a - tv_usec b"
  have range: "- 1000000 < u" "u < 1000000"
    using assms by (simp_all add: valid_timeval_def u_def)
  have total: "usec_of a - usec_of b = s * 1000000 + u"
    by (simp add: usec_of_def s_def u_def algebra_simps)
  have split: "(k * 1000000 + v) div 1000 = k * 1000 + v div 1000" for k v :: int
  proof -
    have "k * 1000000 + v = v + (k * 1000) * 1000" by simp
    then show ?thesis by (simp only: div_mult_self1)
  qed
  show ?thesis
  proof (cases "u < 0")
    case True
    then have "TIMEVAL_TO_MS (timersub a b) = (s - 1) * 1000 + (u + 1000000) div 1000"
      using range
      by (simp add: TIMEVAL_TO_MS_def timersub_def Let_def c_div_nonneg s_def u_def)
    also have "\<dots> = ((s - 1) * 1000000 + (u + 1000000)) div 1000"
      by (simp only: split)
    also have "(s - 1) * 1000000 + (u + 1000000) = s * 1000000 + u"
      by (simp add: algebra_simps)
    finally show ?thesis by (simp add: elapsed_ms_def total)
  next
    case False
    then have "TIMEVAL_TO_MS (timersub a b) = s * 1000 + u div 1000"
      using range
      by (simp add: TIMEVAL_TO_MS_def timersub_def Let_def c_div_nonneg s_def u_def)
    also have "\<dots> = (s * 1000000 + u) div 1000"
      by (simp only: split)
    finally show ?thesis by (simp add: elapsed_ms_def total)
  qed
qed

lemma narrow_int_id: "- (2 ^ 31) \<le> x \<Longrightarrow> x < 2 ^ 31 \<Longrightarrow> narrow_int x = x"
  by (simp add: narrow_int_def sint_sbintrunc' signed_take_bit_int_eq_self)

lemma clamped_wait_in_range:
  assumes "valid_timeval tv_now" and "valid_timeval (tv_sent probe)" and "fits_int tv_now probe"
  shows "clamped_wait tv_now probe = remaining_ms tv_now probe"
  using assms(3)
  by (simp add: clamped_wait_def remaining_ms_def fits_int_def timersub_ms [OF assms(1,2)]
      narrow_int_id)

text \<open>
  While the remaining time of every \<open>WAITING\<close> probe fits an \<^verbatim>\<open>int\<close>,
  \<open>get_min_wait_time\<close> returns \<open>-1\<close> when no probe of the table is \<open>WAITING\<close>, and
  otherwise the minimum, over the \<open>WAITING\<close> probes, of
  \<open>max 0 (timeout - (now - tv_sent))\<close> in milliseconds. The order in which the table is
  visited does not matter.
\<close>

theorem get_min_wait_time_in_range:
  assumes now: "valid_timeval tv_now"
    and fits: "\<forall>probe \<in> set (waiting_probes m). valid_timeval (tv_sent probe) \<and> fits_int tv_now probe"
  shows "get_min_wait_time tv_now m =
     (if waiting_probes m = [] then -1
      else Min (set (map (remaining_ms tv_now) (waiting_probes m))))"
proof -
  have "map (clamped_wait tv_now) (waiting_probes m) = map (remaining_ms tv_now) (waiting_probes m)"
    using fits by (intro map_cong refl clamped_wait_in_range [OF now]) auto
  then show ?thesis
    by (simp add: get_min_wait_time_clamped)
qed

theorem get_min_wait_time_in_range_witness:
  "valid_timeval \<lparr>tv_sec = 100, tv_usec = 200000\<rparr>
   \<and> map (\<lambda>probe. (id_p probe, timeout probe, tv_sent probe)) (waiting_probes one_waiting)
       = [(1, 1000, \<lparr>tv_sec = 100, tv_usec = 0\<rparr>)]
   \<and> list_all (\<lambda>probe. valid_timeval (tv_sent probe)
                  \<and> fits_int \<lparr>tv_sec = 100, tv_usec = 200000\<rparr> probe) (waiting_probes one_waiting)
   \<and> get_min_wait_time \<lparr>tv_sec = 100, tv_usec = 200000\<rparr> one_waiting = 800"
proof -
  let ?now = "\<lparr>tv_sec = 100, tv_usec = 200000\<rparr>"
  have now: "valid_timeval ?now"
    by (simp add: valid_timeval_def)
  have ws: "waiting_probes one_waiting = [echo_probe]"
    by (simp add: waiting_probes_def one_waiting_def echo_probe_def)
  have fits: "valid_timeval (tv_sent echo_probe) \<and> fits_int ?now echo_probe"
    by (simp add: valid_timeval_def fits_int_def elapsed_ms_def usec_of_def echo_probe_def)
  have rem: "remaining_ms ?now echo_probe = 800"
    by (simp add: remaining_ms_def elapsed_ms_def usec_of_def echo_probe_def)
  have "get_min_wait_time ?now one_waiting = 800"
    using get_min_wait_time_in_range [of ?now one_waiting] now fits
    by (simp add: ws rem)
  moreover have "map (\<lambda>probe. (id_p probe, timeout probe, tv_sent probe)) (waiting_probes one_waiting)
       = [(1, 1000, \<lparr>tv_sec = 100, tv_usec = 0\<rparr>)]"
    by (simp add: ws echo_probe_def)
  ultimately show ?thesis
    using now fits by (simp add: ws)
qed

text \<open>
  C9. \<open>get_min_wait_time\<close> should return the least \<open>max 0 (timeout - (now - tv_sent))\<close>
  over the \<open>WAITING\<close> probes. It computes \<^verbatim>\<open>timeout - TIMEVAL_TO_MS(tv_diff)\<close> as a
  \<^verbatim>\<open>long\<close> and stores it in an \<^verbatim>\<open>int\<close>. With the probe of \<open>one_waiting\<close> (sent at
  100 s, timeout 1000 ms) and the clock stepped forward to 2147585 s, the difference is
  \<open>-2147484000\<close>, whose low 32 bits are \<open>2147483296\<close>: this is what
  \<open>get_min_wait_time\<close> returns, a wait of some 24.8 days, where the remaining time is 0.
  \<^verbatim>\<open>check_timeouts\<close>, which compares the same difference as a \<^verbatim>\<open>long\<close>, finds the probe
  expired at that clock.
\<close>

theorem get_min_wait_time_overflow:
  "map (\<lambda>probe. (timeout probe, tv_sent probe)) (waiting_probes one_waiting)
     = [(1000, \<lparr>tv_sec = 100, tv_usec = 0\<rparr>)]
   \<and> get_min_wait_time stepped_clock one_waiting = 2147483296
   \<and> map (remaining_ms stepped_clock) (waiting_probes one_waiting) = [0]
   \<and> map (\<lambda>(fd, probe). status probe) (probes (check_timeouts stepped_clock one_waiting)) = [TIMEOUT]"
  by code_simp

subsection \<open>The sequence number\<close>

text \<open>
  C2. The probe record should store \<open>s mod 65536\<close> and the echo header carry it.
  \<open>send_probe\<close> computes \<^verbatim>\<open>sequence % 0xffff\<close>, the remainder by 65535: for
  \<open>s = 65535\<close> the record stores 0 and the sequence field of the header (bytes 6 and 7)
  is \<open>00 00\<close>, where \<open>65535 mod 65536 = 65535\<close> would give \<open>FF FF\<close>.
\<close>

theorem send_probe_sequence_65535:
  "(case send_probe ok_env 1 ICMP 0 65535 64 1000 8 False [] 0 v4_engine of
      Inl e \<Rightarrow> False
    | Inr (r, m') \<Rightarrow>
        r = SEND_PROBE_SUCCESS
        \<and> map (\<lambda>(fd, probe). sequence probe) (probes m') = [0]
        \<and> map (\<lambda>(fd, probe). drop 6 (packet_data probe)) (probes m') = [[0x00, 0x00]]
        \<and> map (\<lambda>(fd, dst, packet). drop 6 packet) (sent m') = [[0x00, 0x00]])
   \<and> (65535 :: int) mod 65536 = 65535
   \<and> net16_bytes (htons (65535 mod 65536)) = [0xFF, 0xFF]"
  by code_simp

subsection \<open>A failing sendto\<close>

text \<open>
  Let the socket be created and bound and the packet built, and let \<^verbatim>\<open>sendto\<close> fail.
  With \<^verbatim>\<open>errno == EMSGSIZE\<close>, \<open>send_probe\<close> returns 0 and the table holds the probe
  under the socket's descriptor, \<open>WAITING\<close>, the descriptor registered with epoll when
  epoll is set up, no callback made and nothing closed. With any other \<^verbatim>\<open>errno\<close>, on an
  engine whose callback is set, \<open>send_probe\<close> returns -1, has closed the socket and made
  one callback, with status \<open>FATAL_ERROR\<close>, before it returns, and the table and the
  epoll registrations are as before.
\<close>

theorem send_probe_sendto_failure:
  assumes sock: "0 \<le> socket_ret env"
    and bound: "source_ip_mgr m = [] \<or> 0 \<le> bind_ret env"
    and built: "probe_type' = ICMP \<or> 0 \<le> psize"
    and failed: "sendto_ret env < 0"
  shows "(sendto_errno env = EMSGSIZE \<longrightarrow>
            (\<exists>m' probe.
               send_probe env id' probe_type' port sequence' ttl' timeout' psize detect_mtu
                 pattern pattern_len m = Inr (SEND_PROBE_SUCCESS, m')
               \<and> map_of (probes m') (socket_ret env) = Some probe
               \<and> id_p probe = id' \<and> status probe = WAITING
               \<and> (0 \<le> epoll_fd m \<longrightarrow> socket_ret env \<in> set (epoll_set m'))
               \<and> delivered m' = delivered m \<and> closed_fds m' = closed_fds m))
       \<and> (sendto_errno env \<noteq> EMSGSIZE \<and> callback_set m \<longrightarrow>
            (\<exists>m' probe.
               send_probe env id' probe_type' port sequence' ttl' timeout' psize detect_mtu
                 pattern pattern_len m = Inr (SEND_PROBE_ERROR, m')
               \<and> closed_fds m' = closed_fds m @ [socket_ret env]
               \<and> delivered m' = delivered m @ [probe]
               \<and> id_p probe = id' \<and> status probe = FATAL_ERROR
               \<and> probes m' = probes m \<and> epoll_set m' = epoll_set m))"
proof -
  let ?p0 = "new_probe m id' probe_type' sequence' ttl' timeout'"
  from built obtain data where
    pkt: "init_packet_data m ?p0 psize pattern pattern_len = Inr (?p0\<lparr>packet_data := data\<rparr>)"
    using init_packet_data_total [of ?p0 psize m pattern pattern_len] by auto
  show ?thesis
  proof (intro conjI impI)
    assume "sendto_errno env = EMSGSIZE"
    then have "0 \<le> sendto_ret env \<or> sendto_errno env = EMSGSIZE" by simp
    note eq = send_probe_registers [OF sock bound pkt this]
    show "\<exists>m' probe.
               send_probe env id' probe_type' port sequence' ttl' timeout' psize detect_mtu
                 pattern pattern_len m = Inr (SEND_PROBE_SUCCESS, m')
               \<and> map_of (probes m') (socket_ret env) = Some probe
               \<and> id_p probe = id' \<and> status probe = WAITING
               \<and> (0 \<le> epoll_fd m \<longrightarrow> socket_ret env \<in> set (epoll_set m'))
               \<and> delivered m' = delivered m \<and> closed_fds m' = closed_fds m"
      unfolding eq by (simp add: add_socket_def map_of_map_assign)
  next
    assume "sendto_errno env \<noteq> EMSGSIZE \<and> callback_set m"
    then have other: "sendto_errno env \<noteq> EMSGSIZE" and cb: "callback_set m" by simp_all
    note eq = send_probe_sendto_fatal [OF sock bound pkt failed other]
    show "\<exists>m' probe.
               send_probe env id' probe_type' port sequence' ttl' timeout' psize detect_mtu
                 pattern pattern_len m = Inr (SEND_PROBE_ERROR, m')
               \<and> closed_fds m' = closed_fds m @ [socket_ret env]
               \<and> delivered m' = delivered m @ [probe]
               \<and> id_p probe = id' \<and> status probe = FATAL_ERROR
               \<and> probes m' = probes m \<and> epoll_set m' = epoll_set m"
      unfolding eq using cb by (simp add: report_error_set close_fd_def)
  qed
qed

text \<open>
  The theorem at work: a 1500-byte UDP probe whose \<^verbatim>\<open>sendto\<close> fails with \<^verbatim>\<open>EMSGSIZE\<close> is
  registered under descriptor 5, and a probe whose \<^verbatim>\<open>sendto\<close> fails with \<^verbatim>\<open>ENETUNREACH\<close>
  is reported at once and descriptor 5 closed.
\<close>

theorem send_probe_sendto_failure_witness:
  "(\<exists>m' probe.
      send_probe emsgsize_env 1 UDP 33434 7 64 1000 1500 True [] 0 v4_engine = Inr (0, m')
      \<and> map_of (probes m') 5 = Some probe \<and> id_p probe = 1 \<and> status probe = WAITING
      \<and> 5 \<in> set (epoll_set m') \<and> delivered m' = [] \<and> closed_fds m' = [])
   \<and> (\<exists>m' probe.
      send_probe enetunreach_env 1 UDP 33434 7 64 1000 32 True [] 0 v4_engine = Inr (-1, m')
      \<and> closed_fds m' = [5] \<and> delivered m' = [probe]
      \<and> id_p probe = 1 \<and> status probe = FATAL_ERROR
      \<and> probes m' = [] \<and> epoll_set m' = [])"
  using send_probe_sendto_failure [where env = emsgsize_env and m = v4_engine
      and probe_type' = UDP and psize = 1500 and id' = 1 and port = 33434 and sequence' = 7
      and ttl' = 64 and timeout' = 1000 and detect_mtu = True and pattern = "[]"
      and pattern_len = 0]
    send_probe_sendto_failure [where env = enetunreach_env and m = v4_engine
      and probe_type' = UDP and psize = 32 and id' = 1 and port = 33434 and sequence' = 7
      and ttl' = 64 and timeout' = 1000 and detect_mtu = True and pattern = "[]"
      and pattern_len = 0]
  by (simp add: emsgsize_env_def enetunreach_env_def ok_env_def v4_engine_def EMSGSIZE_def
      SEND_PROBE_SUCCESS_def SEND_PROBE_ERROR_def)

text \<open>
  C4. When \<^verbatim>\<open>sendto\<close> fails with an \<^verbatim>\<open>errno\<close> other than \<^verbatim>\<open>EMSGSIZE\<close>, \<open>send_probe\<close>
  should close the socket, make the callback with \<open>FATAL_ERROR\<close> and return -1. On the
  engine made from a destination that does not parse, the constructor has returned before
  it stored the callback. There a UDP probe of size 8 gets its socket, \<^verbatim>\<open>sendto\<close> fails
  with \<^verbatim>\<open>ENETUNREACH\<close>, and the call of the callback throws: \<open>send_probe\<close> makes no
  callback and does not return. The same call on an engine with its callback set returns
  -1 with one \<open>FATAL_ERROR\<close> reported.
\<close>

theorem send_probe_inert_engine_throws:
  "callback_set inert_engine = False
   \<and> 0 \<le> socket_ret enetunreach_env \<and> source_ip_mgr inert_engine = []
   \<and> sendto_ret enetunreach_env < 0 \<and> sendto_errno enetunreach_env \<noteq> EMSGSIZE
   \<and> send_probe enetunreach_env 1 UDP 33434 7 64 1000 8 False [] 0 inert_engine = Inl BadFunctionCall
   \<and> (case send_probe enetunreach_env 1 UDP 33434 7 64 1000 8 False [] 0
             (inert_engine\<lparr>callback_set := True\<rparr>) of
         Inl e \<Rightarrow> False
       | Inr (r, m') \<Rightarrow>
           r = SEND_PROBE_ERROR \<and> map (\<lambda>probe. (id_p probe, status probe)) (delivered m')
                                     = [(1, FATAL_ERROR)]
           \<and> closed_fds m' = [5] \<and> probes m' = [])"
  by code_simp

subsection \<open>The addresses of the engine\<close>

lemma send_probe_frame:
  assumes "send_probe env id' probe_type' port sequence' ttl' timeout' psize detect_mtu
             pattern pattern_len m = Inr (r, m')"
  shows "remote_addr m' = remote_addr m \<and> source_addr m' = source_addr m
       \<and> (sent m' = sent m
          \<or> (\<exists>packet. sent m' = sent m @ [(socket_ret env, destination m probe_type' port, packet)]))"
proof (cases rule: send_probe_cases [where env = env and m = m and id' = id'
      and probe_type' = probe_type' and sequence' = sequence' and ttl' = ttl'
      and timeout' = timeout' and psize = psize and pattern = pattern
      and pattern_len = pattern_len])
  case no_socket
  from assms show ?thesis
    unfolding send_probe_no_socket [OF no_socket] by (auto simp: report_error_Inr)
next
  case no_bind
  from assms show ?thesis
    unfolding send_probe_no_bind [OF no_bind] by (auto simp: report_error_Inr close_fd_def)
next
  case (throws e)
  from assms show ?thesis
    unfolding send_probe_throws [OF throws] by simp
next
  case (fatal probe)
  from assms show ?thesis
    unfolding send_probe_sendto_fatal [OF fatal]
    by (auto simp: report_error_Inr close_fd_def)
next
  case (registers probe)
  from assms show ?thesis
    unfolding send_probe_registers [OF registers]
    by (auto simp: add_socket_def)
qed

text \<open>
  C10. A \<open>send_probe\<close> that returns leaves \<open>remote_addr\<close> and \<open>source_addr\<close> of the
  engine as they were; the port of a UDP probe goes into the address handed to
  \<^verbatim>\<open>sendto\<close> only. So a second \<open>send_probe\<close> on the engine the first one left starts
  from the addresses the engine was built with: the address it hands to \<^verbatim>\<open>sendto\<close> is
  made from the first engine's \<open>remote_addr\<close> and its own port.
\<close>

theorem send_probe_keeps_addresses:
  assumes first: "send_probe env1 id1 type1 port1 seq1 ttl1 timeout1 psize1 mtu1
                    pattern1 len1 m = Inr (r1, m1)"
    and second: "send_probe env2 id2 type2 port2 seq2 ttl2 timeout2 psize2 mtu2
                    pattern2 len2 m1 = Inr (r2, m2)"
  shows "remote_addr m1 = remote_addr m \<and> source_addr m1 = source_addr m
       \<and> (sent m1 = sent m
          \<or> (\<exists>packet. sent m1 = sent m @
                [(socket_ret env1,
                  if type1 = UDP \<and> port1 > 0
                  then (remote_addr m)\<lparr>sin_port := htons port1\<rparr> else remote_addr m,
                  packet)]))
       \<and> remote_addr m2 = remote_addr m \<and> source_addr m2 = source_addr m
       \<and> (sent m2 = sent m1
          \<or> (\<exists>packet. sent m2 = sent m1 @
                [(socket_ret env2,
                  if type2 = UDP \<and> port2 > 0
                  then (remote_addr m)\<lparr>sin_port := htons port2\<rparr> else remote_addr m,
                  packet)]))"
proof -
  note f1 = send_probe_frame [OF first]
  then have same: "remote_addr m1 = remote_addr m" by simp
  have dst: "destination m1 type2 port2 = destination m type2 port2"
    by (simp add: destination_def same)
  note f2 = send_probe_frame [OF second, unfolded dst]
  from f1 f2 show ?thesis
    unfolding destination_def by simp
qed

text \<open>
  The theorem at work: a UDP probe to port 33434, then an ICMP probe. Both leave the
  engine's addresses alone, and the second datagram goes to port 0, the port of
  \<open>remote_addr\<close>, not to the port of the first.
\<close>

theorem send_probe_keeps_addresses_witness:
  "\<exists>m1 m2.
     send_probe ok_env 1 UDP 33434 7 64 1000 4 False [] 0 v4_engine = Inr (0, m1)
     \<and> send_probe (ok_env\<lparr>socket_ret := 6\<rparr>) 2 ICMP 0 8 64 1000 8 False [] 0 m1 = Inr (0, m2)
     \<and> remote_addr m1 = remote_addr v4_engine \<and> source_addr m1 = source_addr v4_engine
     \<and> remote_addr m2 = remote_addr v4_engine \<and> source_addr m2 = source_addr v4_engine
     \<and> map (\<lambda>(fd, dst, packet). (fd, sin_port dst)) (sent m2) = [(5, 33434), (6, 0)]"
proof -
  define m1 where
    "m1 = (case send_probe ok_env 1 UDP 33434 7 64 1000 4 False [] 0 v4_engine of
             Inl e \<Rightarrow> v4_engine | Inr (r, m') \<Rightarrow> m')"
  define m2 where
    "m2 = (case send_probe (ok_env\<lparr>socket_ret := 6\<rparr>) 2 ICMP 0 8 64 1000 8 False [] 0 m1 of
             Inl e \<Rightarrow> v4_engine | Inr (r, m') \<Rightarrow> m')"
  have first: "send_probe ok_env 1 UDP 33434 7 64 1000 4 False [] 0 v4_engine = Inr (0, m1)"
    unfolding m1_def by code_simp
  have second: "send_probe (ok_env\<lparr>socket_ret := 6\<rparr>) 2 ICMP 0 8 64 1000 8 False [] 0 m1 = Inr (0, m2)"
    unfolding m2_def m1_def by code_simp
  have ports: "map (\<lambda>(fd, dst, packet). (fd, sin_port dst)) (sent m2) = [(5, 33434), (6, 0)]"
    unfolding m2_def m1_def by code_simp
  from send_probe_keeps_addresses [OF first second]
  have "remote_addr m1 = remote_addr v4_engine \<and> source_addr m1 = source_addr v4_engine
        \<and> remote_addr m2 = remote_addr v4_engine \<and> source_addr m2 = source_addr v4_engine"
    by simp
  with first second ports show ?thesis
    by (intro exI [of _ m1] exI [of _ m2]) simp
qed

subsection \<open>The receiver\<close>

lemma lookup_read_data:
  "lookup_probe fd (read_data env fd m) =
     read_probe (ss_family (remote_addr m)) env (lookup_probe fd m)"
  by (simp add: lookup_probe_def read_data_def map_of_map_assign)

lemma stamp_received_fields [simp]:
  "status (stamp_received st probe) = status probe"
  "reply_data (stamp_received st probe) = reply_data probe"
  "overhead (stamp_received st probe) = overhead probe"
  "probe_type (stamp_received st probe) = probe_type probe"
  by (simp_all add: stamp_received_def split: option.splits)

lemma walk_cmsgs_fields [simp]:
  "reply_data (walk_cmsgs family st cmsgs probe) = reply_data probe"
  "overhead (walk_cmsgs family st cmsgs probe) = overhead probe"
  "probe_type (walk_cmsgs family st cmsgs probe) = probe_type probe"
  by (induction family st cmsgs probe rule: walk_cmsgs.induct) (simp_all add: Let_def)


lemma length_memcpy:
  "i + n \<le> length data \<Longrightarrow> n \<le> length src \<Longrightarrow> length (memcpy data i src n) = length data"
  by (simp add: memcpy_def)

lemma nth_memcpy:
  assumes "i + n \<le> length data" and "n \<le> length src" and "j < length data"
  shows "memcpy data i src n ! j =
           (if j < i then data ! j else if j < i + n then src ! (j - i) else data ! j)"
  using assms by (auto simp: memcpy_def nth_append min_def)

lemma length_resize [simp]: "length (resize n z xs) = n"
  by (simp add: resize_def)




lemma recv_pass_fail [simp]: "recv_pass family st is_data RecvFail probe = probe"
  by (simp add: recv_pass_def)


lemma recv_pass_overhead [simp]:
  "overhead (recv_pass family st is_data r probe) = overhead probe"
  "probe_type (recv_pass family st is_data r probe) = probe_type probe"
  by (cases r; simp add: recv_pass_def Let_def)+

lemma read_probe_overhead [simp]:
  "overhead (read_probe family env probe) = overhead probe"
  "probe_type (read_probe family env probe) = probe_type probe"
  by (simp_all add: read_probe_def Let_def)

lemma read_probe_nothing:
  assumes "errqueue_recv env = RecvFail" and "data_recv env = RecvFail"
  shows "read_probe family env probe =
           probe\<lparr>tv_received := read_now env, status := TIMEOUT,
                  reply_data := resize INCOMING_BUFFER_SIZE 0 (reply_data probe),
                  tv_diff := timersub (read_now env) (tv_sent probe)\<rparr>"
  using assms by (simp add: read_probe_def Let_def)



text \<open>
  When neither receive of \<open>read_data\<close> yields anything, the probe of the descriptor is
  left \<open>TIMEOUT\<close>, whatever it was before: \<open>read_data\<close> sets \<open>TIMEOUT\<close> before the
  first receive, and only a receive that yields something changes it again.
\<close>

lemma read_data_nothing:
  assumes "errqueue_recv env = RecvFail" and "data_recv env = RecvFail"
  shows "lookup_probe fd (read_data env fd m) =
           (lookup_probe fd m)
             \<lparr>tv_received := read_now env, status := TIMEOUT,
              reply_data := resize INCOMING_BUFFER_SIZE 0 (reply_data (lookup_probe fd m)),
              tv_diff := timersub (read_now env) (tv_sent (lookup_probe fd m))\<rparr>"
  by (simp add: lookup_read_data read_probe_nothing [OF assms])

text \<open>
  C5. A probe whose descriptor is reported readable while neither receive yields anything
  should stay \<open>WAITING\<close>. \<open>read_data\<close> sets the status to \<open>TIMEOUT\<close> before it
  receives and never sets it back. The probe of \<open>one_waiting\<close> was sent at 100 s with a
  timeout of 1000 ms; at 100.2 s its descriptor is reported readable and both receives
  fail. \<open>read_data\<close> leaves the probe \<open>TIMEOUT\<close>, and the same iteration of the
  worker reports it to the callback as timed out and erases it, 800 ms before its
  deadline: at that clock \<open>check_timeouts\<close> leaves the probe \<open>WAITING\<close> and
  \<open>get_min_wait_time\<close> says 800 ms remain.
\<close>

theorem spurious_event_times_out:
  "send_probe ok_env 1 ICMP 0 7 64 1000 8 False [] 0 v4_engine = Inr (SEND_PROBE_SUCCESS, one_waiting)
   \<and> map (\<lambda>(fd, probe). (fd, timeout probe, tv_sent probe, status probe)) (probes one_waiting)
       = [(5, 1000, \<lparr>tv_sec = 100, tv_usec = 0\<rparr>, WAITING)]
   \<and> read_now nothing_to_read = \<lparr>tv_sec = 100, tv_usec = 200000\<rparr>
   \<and> errqueue_recv nothing_to_read = RecvFail \<and> data_recv nothing_to_read = RecvFail
   \<and> map (\<lambda>(fd, probe). status probe) (probes (read_data nothing_to_read 5 one_waiting))
       = [TIMEOUT]
   \<and> status (lookup_probe 5 (read_data nothing_to_read 5 one_waiting)) \<noteq> WAITING
   \<and> (case loop_body spurious_iteration one_waiting of
         Inl e \<Rightarrow> False
       | Inr m' \<Rightarrow>
           map (\<lambda>probe. (id_p probe, status probe)) (delivered m') = [(1, TIMEOUT)]
           \<and> probes m' = [] \<and> closed_fds m' = [5])
   \<and> map (\<lambda>(fd, probe). status probe)
         (probes (check_timeouts \<lparr>tv_sec = 100, tv_usec = 200000\<rparr> one_waiting)) = [WAITING]
   \<and> get_min_wait_time \<lparr>tv_sec = 100, tv_usec = 200000\<rparr> one_waiting = 800"
  by code_simp

subsection \<open>What every probe of a run satisfies\<close>

text \<open>
  \<open>probes_satisfy P\<close> is kept by each operation of the engine, given that \<open>P\<close> is kept
  by what the operation does to a single record.
\<close>

lemma read_data_satisfy:
  assumes "probes_satisfy P m" and "fd \<in> fst ` set (probes m)"
    and "\<And>probe. P probe \<Longrightarrow> P (read_probe (ss_family (remote_addr m)) env probe)"
  shows "probes_satisfy P (read_data env fd m)"
proof -
  have "P (snd (fd, lookup_probe fd m))"
    using assms(1) lookup_probe_in_table [OF assms(2)] unfolding probes_satisfy_def by blast
  then have new: "P (read_probe (ss_family (remote_addr m)) env (lookup_probe fd m))"
    using assms(3) by simp
  have "P (snd entry)" if "entry \<in> set (probes (read_data env fd m))" for entry
  proof -
    from that have "entry = (fd, read_probe (ss_family (remote_addr m)) env (lookup_probe fd m))
                    \<or> entry \<in> set (probes m)"
      by (simp add: read_data_def in_map_assign)
    then show ?thesis
      using new assms(1) by (auto simp: probes_satisfy_def)
  qed
  moreover have "delivered (read_data env fd m) = delivered m"
    by (simp add: read_data_def)
  ultimately show ?thesis
    using assms(1) by (simp add: probes_satisfy_def)
qed

lemma read_data_frame [simp]:
  "remote_addr (read_data env fd m) = remote_addr m"
  "fst ` set (probes (read_data env fd m)) = insert fd (fst ` set (probes m))"
  by (simp_all add: read_data_def keys_map_assign)

lemma handle_events_satisfy:
  assumes "\<And>env probe. P probe \<Longrightarrow> P (read_probe family env probe)"
  shows "probes_satisfy P m \<Longrightarrow> ss_family (remote_addr m) = family \<Longrightarrow>
         (\<forall>fd env. SocketEvent fd env \<in> set evs \<longrightarrow> fd \<in> fst ` set (probes m)) \<Longrightarrow>
         probes_satisfy P (handle_events evs m)
         \<and> remote_addr (handle_events evs m) = remote_addr m"
proof (induction evs m rule: handle_events.induct)
  case (1 m)
  then show ?case by simp
next
  case (2 rest m)
  then show ?case by simp
next
  case (3 fd env rest m)
  have in_table: "fd \<in> fst ` set (probes m)" using 3(4) by auto
  have "probes_satisfy P (read_data env fd m)"
    using 3(2) in_table assms 3(3) by (intro read_data_satisfy) auto
  moreover have "\<forall>fd' env'. SocketEvent fd' env' \<in> set rest \<longrightarrow>
                   fd' \<in> fst ` set (probes (read_data env fd m))"
    using 3(4) by auto
  ultimately show ?case
    using 3(1) 3(3) by simp
qed

lemma check_timeouts_satisfy:
  assumes "probes_satisfy P m"
    and "\<And>probe. P probe \<Longrightarrow> status probe = WAITING \<Longrightarrow> P (probe\<lparr>status := TIMEOUT\<rparr>)"
  shows "probes_satisfy P (check_timeouts tv_now m)"
  using assms by (fastforce simp: probes_satisfy_def check_timeouts_def)

lemma force_timeouts_satisfy:
  assumes "probes_satisfy P m"
    and "\<And>probe. P probe \<Longrightarrow> status probe = WAITING \<Longrightarrow> P (probe\<lparr>status := TIMEOUT\<rparr>)"
  shows "probes_satisfy P (force_timeouts m)"
  using assms by (fastforce simp: probes_satisfy_def force_timeouts_def)

text \<open>
  The delivery pass hands every entry that is not \<open>WAITING\<close> to the callback, once, in
  the order of the table, and changes nothing else. It throws at the first such entry
  when the callback is not set.
\<close>

lemma callback_entries_eq:
  "callback_entries entries m =
     (if callback_set m \<or> filter (\<lambda>probe. status probe \<noteq> WAITING) (map snd entries) = []
      then Inr (m\<lparr>delivered := delivered m
                      @ filter (\<lambda>probe. status probe \<noteq> WAITING) (map snd entries)\<rparr>)
      else Inl BadFunctionCall)"
  by (induction entries arbitrary: m) (auto simp: trigger_callback_def)

lemma send_callbacks_eq:
  "send_callbacks m =
     (if callback_set m \<or> filter (\<lambda>probe. status probe \<noteq> WAITING) (map snd (probes m)) = []
      then Inr (m\<lparr>delivered := delivered m
                      @ filter (\<lambda>probe. status probe \<noteq> WAITING) (map snd (probes m))\<rparr>)
      else Inl BadFunctionCall)"
  by (simp only: send_callbacks_def callback_entries_eq)

lemma send_callbacks_Inr:
  "send_callbacks m = Inr m' \<Longrightarrow>
   m' = m\<lparr>delivered := delivered m
             @ filter (\<lambda>probe. status probe \<noteq> WAITING) (map snd (probes m))\<rparr>"
  by (simp add: send_callbacks_eq split: if_splits)

lemma send_callbacks_satisfy:
  "probes_satisfy P m \<Longrightarrow> send_callbacks m = Inr m' \<Longrightarrow>
   probes_satisfy P m' \<and> remote_addr m' = remote_addr m"
  by (auto simp: probes_satisfy_def dest!: send_callbacks_Inr)

text \<open>The reaper keeps the \<open>WAITING\<close> entries and no others, and makes no callback.\<close>

lemma clean_entries_frame:
  "probes (clean_entries entries m) = filter (\<lambda>(fd, probe). status probe = WAITING) entries
   \<and> delivered (clean_entries entries m) = delivered m
   \<and> remote_addr (clean_entries entries m) = remote_addr m
   \<and> source_addr (clean_entries entries m) = source_addr m"
  by (induction entries m rule: clean_entries.induct) (simp_all add: close_fd_def Let_def)

lemma clean_probes_satisfy:
  "probes_satisfy P m \<Longrightarrow> probes_satisfy P (clean_probes m)"
  by (auto simp: probes_satisfy_def clean_probes_def clean_entries_frame)

lemma sweep_frame [simp]:
  "remote_addr (check_timeouts tv_now m) = remote_addr m"
  "remote_addr (force_timeouts m) = remote_addr m"
  "remote_addr (clean_probes m) = remote_addr m"
  by (simp_all add: check_timeouts_def force_timeouts_def clean_probes_def clean_entries_frame)

lemma loop_body_satisfy:
  assumes "probes_satisfy P m"
    and "\<forall>fd env. SocketEvent fd env \<in> set (events it) \<longrightarrow> fd \<in> fst ` set (probes m)"
    and "\<And>env probe. P probe \<Longrightarrow> P (read_probe (ss_family (remote_addr m)) env probe)"
    and "\<And>probe. P probe \<Longrightarrow> status probe = WAITING \<Longrightarrow> P (probe\<lparr>status := TIMEOUT\<rparr>)"
    and "loop_body it m = Inr m'"
  shows "probes_satisfy P m' \<and> remote_addr m' = remote_addr m"
proof -
  let ?m1 = "handle_events (events it) m"
  let ?m2 = "check_timeouts (sweep_now it) ?m1"
  have m1: "probes_satisfy P ?m1 \<and> remote_addr ?m1 = remote_addr m"
    using assms(1,2) assms(3)
    by (intro handle_events_satisfy [where P = P and family = "ss_family (remote_addr m)"]) auto
  then have m2: "probes_satisfy P ?m2 \<and> remote_addr ?m2 = remote_addr m"
    using assms(4) by (simp add: check_timeouts_satisfy)
  from assms(5) obtain m3 where m3: "send_callbacks ?m2 = Inr m3" and m': "m' = clean_probes m3"
    by (auto simp: loop_body_def split: sum.splits)
  from send_callbacks_satisfy [OF _ m3, of P] m2
  have "probes_satisfy P m3 \<and> remote_addr m3 = remote_addr m" by simp
  then show ?thesis
    by (simp add: m' clean_probes_satisfy)
qed

lemma handler_exit_satisfy:
  assumes "probes_satisfy P m"
    and "\<And>probe. P probe \<Longrightarrow> status probe = WAITING \<Longrightarrow> P (probe\<lparr>status := TIMEOUT\<rparr>)"
  shows "probes_satisfy P (handler_exit m) \<and> remote_addr (handler_exit m) = remote_addr m"
  using assms by (simp add: handler_exit_def clean_probes_satisfy force_timeouts_satisfy)

text \<open>The record \<open>send_probe\<close> makes, and where it puts it.\<close>

lemma new_probe_created:
  "created_by m probe_type' (new_probe m id' probe_type' sequence' ttl' timeout')"
  by (simp add: created_by_def new_probe_def expected_overhead_def UDP_OVERHEAD_def
      IPV4_OVERHEAD_def IPV6_OVERHEAD_def)

lemma created_by_updates [simp]:
  "created_by m ty (probe\<lparr>packet_data := data\<rparr>) = created_by m ty probe"
  "created_by m ty (probe\<lparr>tv_sent := tv\<rparr>) = created_by m ty probe"
  "created_by m ty (probe\<lparr>error_msg := msg\<rparr>) = created_by m ty probe"
  "created_by m ty probe \<Longrightarrow> created_by m ty (probe\<lparr>status := FATAL_ERROR\<rparr>)"
  by (simp_all add: created_by_def)

lemma send_probe_effect:
  assumes "send_probe env id' probe_type' port sequence' ttl' timeout' psize detect_mtu
             pattern pattern_len m = Inr (r, m')"
  shows "remote_addr m' = remote_addr m
       \<and> (\<exists>probe. created_by m probe_type' probe
             \<and> ((delivered m' = delivered m @ [probe] \<and> probes m' = probes m)
                \<or> (delivered m' = delivered m
                    \<and> probes m' = map_assign (socket_ret env) probe (probes m))))"
proof -
  let ?p0 = "new_probe m id' probe_type' sequence' ttl' timeout'"
  note c0 = new_probe_created [of m probe_type' id' sequence' ttl' timeout']
  show ?thesis
  proof (cases rule: send_probe_cases [where env = env and m = m and id' = id'
      and probe_type' = probe_type' and sequence' = sequence' and ttl' = ttl'
      and timeout' = timeout' and psize = psize and pattern = pattern
      and pattern_len = pattern_len])
    case no_socket
    let ?p = "?p0\<lparr>error_msg := ''Error creating socket: '' @ strerror env (socket_errno env),
                   status := FATAL_ERROR\<rparr>"
    have "created_by m probe_type' ?p" using c0 by simp
    moreover have "m' = m\<lparr>delivered := delivered m @ [?p]\<rparr>"
      using assms unfolding send_probe_no_socket [OF no_socket] by (simp add: report_error_Inr)
    ultimately show ?thesis
      by (intro conjI exI [of _ ?p]) simp_all
  next
    case no_bind
    let ?p = "?p0\<lparr>error_msg := ''Error binding socket: '' @ strerror env (bind_errno env),
                   status := FATAL_ERROR\<rparr>"
    have "created_by m probe_type' ?p" using c0 by simp
    moreover have "m' = (close_fd (socket_ret env) m)\<lparr>delivered := delivered m @ [?p]\<rparr>"
      using assms unfolding send_probe_no_bind [OF no_bind]
      by (simp add: report_error_Inr close_fd_def)
    ultimately show ?thesis
      by (intro conjI exI [of _ ?p]) (simp_all add: close_fd_def)
  next
    case (throws e)
    from assms show ?thesis
      unfolding send_probe_throws [OF throws] by simp
  next
    case (fatal probe)
    from init_packet_data_Inr [OF fatal(3)] obtain data where
      probe: "probe = ?p0\<lparr>packet_data := data\<rparr>" by blast
    let ?p = "probe\<lparr>tv_sent := send_now env,
                   error_msg := ''Error sending probe: '' @ strerror env (sendto_errno env),
                   status := FATAL_ERROR\<rparr>"
    have "created_by m probe_type' ?p" using c0 by (simp add: probe)
    moreover have "m' =
            (close_fd (socket_ret env)
               (m\<lparr>sent := sent m @ [(socket_ret env, destination m probe_type' port, packet_data probe)]\<rparr>))
              \<lparr>delivered := delivered m @ [?p]\<rparr>"
      using assms unfolding send_probe_sendto_fatal [OF fatal]
      by (simp add: report_error_Inr close_fd_def)
    ultimately show ?thesis
      by (intro conjI exI [of _ ?p]) (simp_all add: close_fd_def)
  next
    case (registers probe)
    from init_packet_data_Inr [OF registers(3)] obtain data where
      probe: "probe = ?p0\<lparr>packet_data := data\<rparr>" by blast
    let ?p = "probe\<lparr>tv_sent := send_now env\<rparr>"
    have "created_by m probe_type' ?p" using c0 by (simp add: probe)
    moreover have "m' = add_socket (socket_ret env) ?p
            (m\<lparr>sent := sent m @ [(socket_ret env, destination m probe_type' port, packet_data probe)]\<rparr>)"
      using assms unfolding send_probe_registers [OF registers] by simp
    ultimately show ?thesis
      by (intro conjI exI [of _ ?p]) (simp_all add: add_socket_def)
  qed
qed

lemma send_probe_satisfy:
  assumes "probes_satisfy P m"
    and "send_probe env id' probe_type' port sequence' ttl' timeout' psize detect_mtu
           pattern pattern_len m = Inr (r, m')"
    and "\<And>probe. created_by m probe_type' probe \<Longrightarrow> P probe"
  shows "probes_satisfy P m'"
proof -
  from send_probe_effect [OF assms(2)] obtain probe where
    c: "created_by m probe_type' probe"
    and e: "(delivered m' = delivered m @ [probe] \<and> probes m' = probes m)
            \<or> (delivered m' = delivered m
                \<and> probes m' = map_assign (socket_ret env) probe (probes m))"
    by blast
  have new: "P probe" using c by (rule assms(3))
  have "P (snd entry)" if "entry \<in> set (map_assign (socket_ret env) probe (probes m))" for entry
    using in_map_assign [OF that] new assms(1) by (auto simp: probes_satisfy_def)
  then show ?thesis
    using e new assms(1) by (auto simp: probes_satisfy_def)
qed

subsection \<open>The overhead\<close>

lemma reachable_overhead:
  "reachable m \<Longrightarrow>
   probes_satisfy
     (\<lambda>probe. overhead probe = expected_overhead (probe_type probe) (ss_family (remote_addr m))) m"
proof (induction rule: reachable.induct)
  case (start m)
  then show ?case by (simp add: probes_satisfy_def)
next
  case (send m env id' probe_type' port sequence' ttl' timeout' psize detect_mtu pattern pattern_len r m')
  have addr: "remote_addr m' = remote_addr m"
    using send_probe_effect [OF send(2)] by simp
  show ?case
    unfolding addr
    by (rule send_probe_satisfy [OF send(3) send(2)]) (simp add: created_by_def)
next
  case (iterate m it m')
  let ?P = "\<lambda>probe. overhead probe = expected_overhead (probe_type probe) (ss_family (remote_addr m))"
  have "probes_satisfy ?P m' \<and> remote_addr m' = remote_addr m"
    by (rule loop_body_satisfy [OF iterate(4) iterate(2) _ _ iterate(3)]) simp_all
  then show ?case by simp
next
  case (exit m)
  let ?P = "\<lambda>probe. overhead probe = expected_overhead (probe_type probe) (ss_family (remote_addr m))"
  have "probes_satisfy ?P (handler_exit m) \<and> remote_addr (handler_exit m) = remote_addr m"
    by (rule handler_exit_satisfy [OF exit(2)]) simp
  then show ?case by simp
qed

text \<open>An engine a run reaches: the probe of \<open>one_waiting\<close> has been answered and reported.\<close>

lemma reachable_one_waiting: "reachable one_waiting"
proof -
  have "reachable v4_engine"
    by (rule reachable.start) (simp_all add: v4_engine_def)
  then show ?thesis
    using send_echo_probe by (rule reachable.send)
qed

lemma reply_answered: "loop_body reply_iteration one_waiting = Inr answered"
  by code_simp

lemma reachable_answered: "reachable answered"
  by (rule reachable.iterate [OF reachable_one_waiting _ reply_answered])
     (simp add: reply_iteration_def one_waiting_def)

text \<open>
  C8. In every engine a run reaches, each probe that was handed to the callback and each
  probe of the table has \<open>overhead\<close> equal to 8 for UDP and 0 otherwise, plus 20 when
  the destination is IPv4 and 40 otherwise.
\<close>

theorem delivered_overhead:
  assumes "reachable m"
  shows "(\<forall>probe \<in> set (delivered m).
            overhead probe = (if probe_type probe = UDP then 8 else 0)
                             + (if ss_family (remote_addr m) = AF_INET then 20 else 40))
       \<and> (\<forall>entry \<in> set (probes m).
            overhead (snd entry) = (if probe_type (snd entry) = UDP then 8 else 0)
                                   + (if ss_family (remote_addr m) = AF_INET then 20 else 40))"
  using reachable_overhead [OF assms]
  by (simp add: probes_satisfy_def expected_overhead_def)

theorem delivered_overhead_witness:
  "reachable answered
   \<and> map (\<lambda>probe. (id_p probe, status probe, probe_type probe, overhead probe))
         (delivered answered) = [(1, SUCCESS, ICMP, 20)]
   \<and> ss_family (remote_addr answered) = AF_INET
   \<and> list_all (\<lambda>probe. overhead probe = 20) (delivered answered)"
proof -
  have d: "map (\<lambda>probe. (id_p probe, status probe, probe_type probe, overhead probe))
         (delivered answered) = [(1, SUCCESS, ICMP, 20)]"
    by code_simp
  then have ty: "\<forall>probe \<in> set (delivered answered). probe_type probe = ICMP"
    by auto
  have f: "ss_family (remote_addr answered) = AF_INET"
    by code_simp
  from delivered_overhead [OF reachable_answered] ty f
  have "list_all (\<lambda>probe. overhead probe = 20) (delivered answered)"
    by (simp add: list_all_iff)
  with reachable_answered d f show ?thesis by simp
qed

subsection \<open>The reply bytes\<close>




subsection \<open>The packet\<close>

text \<open>
  The invariant of the fill loop: when it is entered at \<open>i\<close>, the bytes below \<open>i\<close>
  stay and every byte from \<open>i\<close> on becomes the byte of the pattern at its distance from
  \<open>i\<close>, modulo the length of the pattern.
\<close>

lemma fill_pattern_spec:
  assumes "0 < pattern_len" and "pattern_len = int (length pattern)"
    and "packet_size = int (length data)" and "0 \<le> i"
  shows "length (fill_pattern data pattern pattern_len packet_size i) = length data
       \<and> (\<forall>j < length data.
            fill_pattern data pattern pattern_len packet_size i ! j =
              (if int j < i then data ! j
               else pattern ! ((j - nat i) mod length pattern)))"
  using assms
proof (induction data pattern pattern_len packet_size i rule: fill_pattern.induct)
  case (1 data pattern pattern_len packet_size i)
  show ?case
  proof (cases "i < packet_size")
    case False
    then show ?thesis
      using "1.prems" by (simp add: fill_pattern.simps)
  next
    case True
    define chunk_size where
      "chunk_size = (if packet_size - i > pattern_len then pattern_len else packet_size - i)"
    define data' where "data' = memcpy data (nat i) pattern (nat chunk_size)"
    have chunk: "0 < chunk_size" "chunk_size \<le> pattern_len" "i + chunk_size \<le> packet_size"
      using True "1.prems" by (auto simp: chunk_size_def)
    have fits: "nat i + nat chunk_size \<le> length data" "nat chunk_size \<le> length pattern"
      using chunk "1.prems" by auto
    have len: "length data' = length data"
      unfolding data'_def using fits by (rule length_memcpy)
    have unfold: "fill_pattern data pattern pattern_len packet_size i =
                  fill_pattern data' pattern pattern_len packet_size (i + pattern_len)"
      using True "1.prems"(1)
      by (subst fill_pattern.simps) (simp add: Let_def data'_def chunk_size_def)
    have IH: "length (fill_pattern data' pattern pattern_len packet_size (i + pattern_len)) = length data'
       \<and> (\<forall>j < length data'.
            fill_pattern data' pattern pattern_len packet_size (i + pattern_len) ! j =
              (if int j < i + pattern_len then data' ! j
               else pattern ! ((j - nat (i + pattern_len)) mod length pattern)))"
      using "1.IH" [of "packet_size - i" chunk_size] True "1.prems" len
      by (simp add: chunk_size_def data'_def)
    show ?thesis
    proof (intro conjI allI impI)
      show "length (fill_pattern data pattern pattern_len packet_size i) = length data"
        using IH len unfold by simp
    next
      fix j assume j: "j < length data"
      have r: "fill_pattern data pattern pattern_len packet_size i ! j =
               (if int j < i + pattern_len then data' ! j
                else pattern ! ((j - nat (i + pattern_len)) mod length pattern))"
        using IH j len unfold by simp
      have d: "data' ! j = (if j < nat i then data ! j
                            else if j < nat i + nat chunk_size then pattern ! (j - nat i)
                            else data ! j)"
        unfolding data'_def using fits j by (rule nth_memcpy)
      show "fill_pattern data pattern pattern_len packet_size i ! j =
              (if int j < i then data ! j else pattern ! ((j - nat i) mod length pattern))"
      proof (cases "int j < i")
        case True
        then show ?thesis using r d "1.prems" by auto
      next
        case False
        note ge = this
        show ?thesis
        proof (cases "int j < i + pattern_len")
          case True
          then have "j < nat i + nat chunk_size"
            using j "1.prems" ge by (auto simp: chunk_size_def)
          moreover have "(j - nat i) mod length pattern = j - nat i"
            using True ge "1.prems" by (intro mod_less) auto
          ultimately show ?thesis using r d ge True "1.prems" by auto
        next
          case False
          have "nat (i + pattern_len) = nat i + length pattern"
            using "1.prems" by (simp add: nat_add_distrib)
          moreover have "j - (nat i + length pattern) = (j - nat i) - length pattern" by simp
          moreover have "length pattern \<le> j - nat i"
            using False ge "1.prems" by auto
          ultimately have "(j - nat (i + pattern_len)) mod length pattern = (j - nat i) mod length pattern"
            by (simp add: le_mod_geq)
          then show ?thesis using r ge False by simp
        qed
      qed
    qed
  qed
qed

text \<open>\<^verbatim>\<open>htons\<close> and the memory image: most significant byte first.\<close>

lemma net16_bytes_htons:
  "net16_bytes (htons x) = [word_of_int (x mod 65536 div 256), word_of_int (x mod 256)]"
proof -
  have a: "x mod 65536 div 256 = drop_bit 8 (take_bit 16 x)"
    by (simp add: drop_bit_eq_div take_bit_eq_mod)
  have b: "x mod 256 = take_bit 8 x"
    by (simp add: take_bit_eq_mod)
  have hi: "(ucast (drop_bit 8 (word_of_int x :: 16 word)) :: byte) = word_of_int (x mod 65536 div 256)"
    unfolding a by (rule bit_word_eqI) (auto simp: bit_simps)
  have lo: "(ucast (word_of_int x :: 16 word) :: byte) = word_of_int (x mod 256)"
    unfolding b by (rule bit_word_eqI) (auto simp: bit_simps)
  show ?thesis by (simp add: net16_bytes_def htons_def hi lo)
qed

lemma echo_header_eq:
  "echo_header (if family = AF_INET then ICMP_ECHO else ICMPV6_ECHO_REQUEST) idn sq =
   echo_header_bytes family idn sq"
  by (simp add: echo_header_def echo_header_bytes_def net16_bytes_htons ICMP_ECHO_def
      ICMPV6_ECHO_REQUEST_def)

lemma length_echo_header [simp]: "length (echo_header ty idn sq) = 8"
  by (simp add: echo_header_def net16_bytes_def)

lemma memcpy_header:
  "8 \<le> n \<Longrightarrow> memcpy (replicate n 0) 0 (echo_header ty idn sq) 8 =
     echo_header ty idn sq @ replicate (n - 8) 0"
  by (simp add: memcpy_def)

lemma pattern_filled_fill:
  assumes "0 < length pattern" and "off \<le> length data"
  shows "pattern_filled
           (fill_pattern data pattern (int (length pattern)) (int (length data)) (int off))
           off pattern
       \<and> length (fill_pattern data pattern (int (length pattern)) (int (length data)) (int off))
           = length data
       \<and> take off (fill_pattern data pattern (int (length pattern)) (int (length data)) (int off))
           = take off data"
proof -
  let ?r = "fill_pattern data pattern (int (length pattern)) (int (length data)) (int off)"
  have spec: "length ?r = length data
       \<and> (\<forall>j < length data. ?r ! j =
              (if int j < int off then data ! j
               else pattern ! ((j - nat (int off)) mod length pattern)))"
    using assms by (intro fill_pattern_spec) simp_all
  have "take off ?r = take off data"
    using spec assms(2) by (intro nth_equalityI) simp_all
  moreover have "pattern_filled ?r off pattern"
    using spec assms(1) by (auto simp: pattern_filled_def)
  ultimately show ?thesis using spec by simp
qed

lemma init_packet_data_layout:
  assumes len: "pattern_len = int (length pattern)"
    and size_ok: "probe_type probe = ICMP \<or> 0 \<le> psize"
  shows "\<exists>packet.
           init_packet_data m probe psize pattern pattern_len = Inr (probe\<lparr>packet_data := packet\<rparr>)
           \<and> (probe_type probe = ICMP \<longrightarrow>
                length packet = nat (max psize 8)
                \<and> take 8 packet = echo_header_bytes (ss_family (remote_addr m)) (ident m) (sequence probe)
                \<and> pattern_filled packet 8 pattern)
           \<and> (probe_type probe \<noteq> ICMP \<longrightarrow>
                length packet = nat psize \<and> pattern_filled packet 0 pattern)"
proof (cases "probe_type probe = ICMP")
  case True
  define n where "n = nat (max psize 8)"
  have n8: "8 \<le> n" by (simp add: n_def)
  let ?hdr = "echo_header (if ss_family (remote_addr m) = AF_INET then ICMP_ECHO else ICMPV6_ECHO_REQUEST)
                (ident m) (sequence probe)"
  let ?d1 = "?hdr @ replicate (n - 8) 0"
  have len1: "length ?d1 = n" using n8 by simp
  have hdr: "?hdr = echo_header_bytes (ss_family (remote_addr m)) (ident m) (sequence probe)"
    by (rule echo_header_eq)
  show ?thesis
  proof (cases "pattern = []")
    case Nil: True
    have "init_packet_data m probe psize pattern pattern_len = Inr (probe\<lparr>packet_data := ?d1\<rparr>)"
      using True Nil len
      by (auto simp add: init_packet_data_def Let_def ICMP_HEADER_SIZE_def memcpy_header n_def max_def)
    moreover have "pattern_filled ?d1 8 pattern"
      using Nil by (auto simp: pattern_filled_def nth_append)
    ultimately show ?thesis
      using True len1 hdr by (intro exI [of _ ?d1]) (simp add: n_def)
  next
    case False
    then have pos: "0 < length pattern" by simp
    let ?d2 = "fill_pattern ?d1 pattern (int (length pattern)) (int n) 8"
    have eq: "init_packet_data m probe psize pattern pattern_len = Inr (probe\<lparr>packet_data := ?d2\<rparr>)"
      using True pos len
      by (auto simp add: init_packet_data_def Let_def ICMP_HEADER_SIZE_def memcpy_header n_def max_def)
    have "pattern_filled ?d2 8 pattern \<and> length ?d2 = length ?d1 \<and> take 8 ?d2 = take 8 ?d1"
      using pattern_filled_fill [of pattern 8 ?d1] pos n8 len1 by simp
    then show ?thesis
      using True eq len1 hdr by (intro exI [of _ ?d2]) (simp add: n_def)
  qed
next
  case False
  with size_ok have nonneg: "0 \<le> psize" by simp
  let ?d1 = "replicate (nat psize) (0 :: byte)"
  show ?thesis
  proof (cases "pattern = []")
    case Nil: True
    have "init_packet_data m probe psize pattern pattern_len = Inr (probe\<lparr>packet_data := ?d1\<rparr>)"
      using False Nil len nonneg
      by (simp add: init_packet_data_def Let_def)
    moreover have "pattern_filled ?d1 0 pattern"
      using Nil by (auto simp: pattern_filled_def)
    ultimately show ?thesis
      using False by (intro exI [of _ ?d1]) simp
  next
    case nonempty: False
    then have pos: "0 < length pattern" by simp
    let ?d2 = "fill_pattern ?d1 pattern (int (length pattern)) psize 0"
    have eq: "init_packet_data m probe psize pattern pattern_len = Inr (probe\<lparr>packet_data := ?d2\<rparr>)"
      using False pos len nonneg
      by (simp add: init_packet_data_def Let_def)
    have "pattern_filled ?d2 0 pattern \<and> length ?d2 = length ?d1"
      using pattern_filled_fill [of pattern 0 ?d1] pos nonneg by simp
    then show ?thesis
      using False eq by (intro exI [of _ ?d2]) simp
  qed
qed

text \<open>
  C7, as the code has it. Let the socket be created and bound, let \<open>pattern_len\<close> be
  the length of the pattern, and let the size of a UDP probe not be negative. Then
  \<open>send_probe\<close> builds one packet. For ICMP the packet has \<open>max S 8\<close> bytes, its
  first 8 bytes are the echo header (type 8 for IPv4 and 128 for IPv6, code 0, two zero
  bytes, the identifier of the engine and the sequence number the record stores, each
  most significant byte first), and the bytes behind the header are the pattern
  repeated and cut at the end of the packet, or zero for an empty pattern. For UDP the
  packet has \<open>S\<close> bytes, all of them the pattern repeated, or zero. \<open>send_probe\<close>
  returns, it has handed this packet to \<^verbatim>\<open>sendto\<close>, and the record it registers or
  reports holds it; only when \<^verbatim>\<open>sendto\<close> fails for good on an engine without a callback
  does the report of the failure throw instead.
\<close>

theorem send_probe_packet:
  assumes sock: "0 \<le> socket_ret env"
    and bound: "source_ip_mgr m = [] \<or> 0 \<le> bind_ret env"
    and len: "pattern_len = int (length pattern)"
    and size_ok: "probe_type' = UDP \<longrightarrow> 0 \<le> psize"
    and ty: "probe_type' = ICMP \<or> probe_type' = UDP"
  shows "\<exists>packet.
           init_packet_data m (new_probe m id' probe_type' sequence' ttl' timeout')
               psize pattern pattern_len
             = Inr ((new_probe m id' probe_type' sequence' ttl' timeout')\<lparr>packet_data := packet\<rparr>)
           \<and> (if sendto_fatal env \<and> \<not> callback_set m
              then send_probe env id' probe_type' port sequence' ttl' timeout' psize detect_mtu
                     pattern pattern_len m = Inl BadFunctionCall
              else \<exists>r m' probe.
                     send_probe env id' probe_type' port sequence' ttl' timeout' psize detect_mtu
                       pattern pattern_len m = Inr (r, m')
                     \<and> sent m' = sent m @ [(socket_ret env, destination m probe_type' port, packet)]
                     \<and> packet_data probe = packet
                     \<and> ((r = SEND_PROBE_SUCCESS \<and> map_of (probes m') (socket_ret env) = Some probe)
                        \<or> (r = SEND_PROBE_ERROR \<and> delivered m' = delivered m @ [probe])))
           \<and> (probe_type' = ICMP \<longrightarrow>
                length packet = nat (max psize 8)
                \<and> take 8 packet =
                    echo_header_bytes (ss_family (remote_addr m)) (ident m) (c_mod sequence' 0xffff)
                \<and> pattern_filled packet 8 pattern)
           \<and> (probe_type' = UDP \<longrightarrow>
                length packet = nat psize \<and> pattern_filled packet 0 pattern)"
proof -
  let ?p0 = "new_probe m id' probe_type' sequence' ttl' timeout'"
  have "probe_type ?p0 = ICMP \<or> 0 \<le> psize"
    using size_ok ty by auto
  from init_packet_data_layout [OF len this, of m] obtain packet where
    built: "init_packet_data m ?p0 psize pattern pattern_len = Inr (?p0\<lparr>packet_data := packet\<rparr>)"
    and icmp: "probe_type' = ICMP \<Longrightarrow>
                length packet = nat (max psize 8)
                \<and> take 8 packet =
                    echo_header_bytes (ss_family (remote_addr m)) (ident m) (c_mod sequence' 0xffff)
                \<and> pattern_filled packet 8 pattern"
    and udp: "probe_type' \<noteq> ICMP \<Longrightarrow> length packet = nat psize \<and> pattern_filled packet 0 pattern"
    by auto
  have layout: "(probe_type' = ICMP \<longrightarrow>
                length packet = nat (max psize 8)
                \<and> take 8 packet =
                    echo_header_bytes (ss_family (remote_addr m)) (ident m) (c_mod sequence' 0xffff)
                \<and> pattern_filled packet 8 pattern)
           \<and> (probe_type' = UDP \<longrightarrow>
                length packet = nat psize \<and> pattern_filled packet 0 pattern)"
    using icmp udp by auto
  let ?sent = "m\<lparr>sent := sent m @ [(socket_ret env, destination m probe_type' port, packet)]\<rparr>"
  have result: "if sendto_fatal env \<and> \<not> callback_set m
              then send_probe env id' probe_type' port sequence' ttl' timeout' psize detect_mtu
                     pattern pattern_len m = Inl BadFunctionCall
              else \<exists>r m' probe.
                     send_probe env id' probe_type' port sequence' ttl' timeout' psize detect_mtu
                       pattern pattern_len m = Inr (r, m')
                     \<and> sent m' = sent m @ [(socket_ret env, destination m probe_type' port, packet)]
                     \<and> packet_data probe = packet
                     \<and> ((r = SEND_PROBE_SUCCESS \<and> map_of (probes m') (socket_ret env) = Some probe)
                        \<or> (r = SEND_PROBE_ERROR \<and> delivered m' = delivered m @ [probe]))"
  proof (cases "sendto_fatal env")
    case True
    then have f: "sendto_ret env < 0" "sendto_errno env \<noteq> EMSGSIZE"
      by (simp_all add: sendto_fatal_def)
    let ?p = "?p0\<lparr>packet_data := packet, tv_sent := send_now env,
                   error_msg := ''Error sending probe: '' @ strerror env (sendto_errno env),
                   status := FATAL_ERROR\<rparr>"
    have eq: "send_probe env id' probe_type' port sequence' ttl' timeout' psize detect_mtu
                pattern pattern_len m = report_error ?p (close_fd (socket_ret env) ?sent)"
      using send_probe_sendto_fatal [OF sock bound built f] by simp
    show ?thesis
    proof (cases "callback_set m")
      case False
      then show ?thesis
        using True by (simp add: eq report_error_unset)
    next
      case cb: True
      let ?m' = "(close_fd (socket_ret env) ?sent)
                   \<lparr>delivered := delivered (close_fd (socket_ret env) ?sent) @ [?p]\<rparr>"
      have eq': "send_probe env id' probe_type' port sequence' ttl' timeout' psize detect_mtu
                pattern pattern_len m = Inr (SEND_PROBE_ERROR, ?m')"
        using cb by (simp add: eq report_error_set)
      have "\<exists>r m' probe.
                     send_probe env id' probe_type' port sequence' ttl' timeout' psize detect_mtu
                       pattern pattern_len m = Inr (r, m')
                     \<and> sent m' = sent m @ [(socket_ret env, destination m probe_type' port, packet)]
                     \<and> packet_data probe = packet
                     \<and> ((r = SEND_PROBE_SUCCESS \<and> map_of (probes m') (socket_ret env) = Some probe)
                        \<or> (r = SEND_PROBE_ERROR \<and> delivered m' = delivered m @ [probe]))"
        apply (rule exI [of _ SEND_PROBE_ERROR])
        apply (rule exI [of _ ?m'])
        apply (rule exI [of _ ?p])
        apply (simp add: eq' close_fd_def)
        done
      then show ?thesis using cb by simp
    qed
  next
    case False
    then have ok: "0 \<le> sendto_ret env \<or> sendto_errno env = EMSGSIZE"
      by (auto simp: sendto_fatal_def)
    let ?p = "?p0\<lparr>packet_data := packet, tv_sent := send_now env\<rparr>"
    let ?m' = "add_socket (socket_ret env) ?p ?sent"
    have eq: "send_probe env id' probe_type' port sequence' ttl' timeout' psize detect_mtu
                pattern pattern_len m = Inr (SEND_PROBE_SUCCESS, ?m')"
      using send_probe_registers [OF sock bound built ok] by simp
    have "\<exists>r m' probe.
                     send_probe env id' probe_type' port sequence' ttl' timeout' psize detect_mtu
                       pattern pattern_len m = Inr (r, m')
                     \<and> sent m' = sent m @ [(socket_ret env, destination m probe_type' port, packet)]
                     \<and> packet_data probe = packet
                     \<and> ((r = SEND_PROBE_SUCCESS \<and> map_of (probes m') (socket_ret env) = Some probe)
                        \<or> (r = SEND_PROBE_ERROR \<and> delivered m' = delivered m @ [probe]))"
      apply (rule exI [of _ SEND_PROBE_SUCCESS])
      apply (rule exI [of _ ?m'])
      apply (rule exI [of _ ?p])
      apply (simp add: eq add_socket_def map_of_map_assign)
      done
    then show ?thesis using False by simp
  qed
  show ?thesis
    using built result layout
    by (intro exI [of _ packet]) (rule conjI, assumption, rule conjI, assumption, assumption)
qed
text \<open>
  The theorem at work: an ICMP probe of size 12 with sequence 65534 and the pattern
  \<open>AA BB CC\<close>, and a UDP probe of size 5 with the same pattern.
\<close>

theorem send_probe_packet_witness:
  "(\<exists>r m' packet.
      send_probe ok_env 1 ICMP 0 65534 64 1000 12 False [0xAA, 0xBB, 0xCC] 3 v4_engine = Inr (r, m')
      \<and> sent m' = [(5, remote_addr v4_engine, packet)]
      \<and> length packet = 12
      \<and> take 8 packet = [8, 0, 0, 0, 0x12, 0x34, 0xFF, 0xFE]
      \<and> pattern_filled packet 8 [0xAA, 0xBB, 0xCC])
   \<and> (\<exists>r m' packet.
      send_probe ok_env 1 UDP 33434 7 64 1000 5 False [0xAA, 0xBB, 0xCC] 3 v4_engine = Inr (r, m')
      \<and> sent m' = [(5, (remote_addr v4_engine)\<lparr>sin_port := 33434\<rparr>, packet)]
      \<and> length packet = 5
      \<and> pattern_filled packet 0 [0xAA, 0xBB, 0xCC])
   \<and> map (\<lambda>(fd, dst, packet). packet)
        (case send_probe ok_env 1 ICMP 0 65534 64 1000 12 False [0xAA, 0xBB, 0xCC] 3 v4_engine of
           Inl e \<Rightarrow> [] | Inr (r, m') \<Rightarrow> sent m')
      = [[8, 0, 0, 0, 0x12, 0x34, 0xFF, 0xFE, 0xAA, 0xBB, 0xCC, 0xAA]]
   \<and> map (\<lambda>(fd, dst, packet). packet)
        (case send_probe ok_env 1 UDP 33434 7 64 1000 5 False [0xAA, 0xBB, 0xCC] 3 v4_engine of
           Inl e \<Rightarrow> [] | Inr (r, m') \<Rightarrow> sent m')
      = [[0xAA, 0xBB, 0xCC, 0xAA, 0xBB]]"
proof -
  have hyps: "0 \<le> socket_ret ok_env" "source_ip_mgr v4_engine = [] \<or> 0 \<le> bind_ret ok_env"
    "(3 :: int) = int (length [0xAA, 0xBB, 0xCC :: byte])"
    by (simp_all add: ok_env_def v4_engine_def)
  have seq: "c_mod 65534 0xffff = 65534"
    by (simp add: c_mod_def c_div_def)
  have port: "htons 33434 = 33434"
    by (simp add: htons_def)
  have cb: "callback_set v4_engine"
    by (simp add: v4_engine_def)
  from send_probe_packet [OF hyps, where probe_type' = ICMP and psize = 12 and id' = 1
      and port = 0 and sequence' = 65534 and ttl' = 64 and timeout' = 1000 and detect_mtu = False]
  have icmp: "\<exists>r m' packet.
      send_probe ok_env 1 ICMP 0 65534 64 1000 12 False [0xAA, 0xBB, 0xCC] 3 v4_engine = Inr (r, m')
      \<and> sent m' = [(5, remote_addr v4_engine, packet)]
      \<and> length packet = 12
      \<and> take 8 packet = [8, 0, 0, 0, 0x12, 0x34, 0xFF, 0xFE]
      \<and> pattern_filled packet 8 [0xAA, 0xBB, 0xCC]"
    using cb by (auto simp: seq destination_def echo_header_bytes_def ok_env_def v4_engine_def)
  from send_probe_packet [OF hyps, where probe_type' = UDP and psize = 5 and id' = 1
      and port = 33434 and sequence' = 7 and ttl' = 64 and timeout' = 1000 and detect_mtu = False]
  have udp: "\<exists>r m' packet.
      send_probe ok_env 1 UDP 33434 7 64 1000 5 False [0xAA, 0xBB, 0xCC] 3 v4_engine = Inr (r, m')
      \<and> sent m' = [(5, (remote_addr v4_engine)\<lparr>sin_port := 33434\<rparr>, packet)]
      \<and> length packet = 5
      \<and> pattern_filled packet 0 [0xAA, 0xBB, 0xCC]"
    using cb by (auto simp: port destination_def ok_env_def v4_engine_def)
  have bytes1: "map (\<lambda>(fd, dst, packet). packet)
        (case send_probe ok_env 1 ICMP 0 65534 64 1000 12 False [0xAA, 0xBB, 0xCC] 3 v4_engine of
           Inl e \<Rightarrow> [] | Inr (r, m') \<Rightarrow> sent m')
      = [[8, 0, 0, 0, 0x12, 0x34, 0xFF, 0xFE, 0xAA, 0xBB, 0xCC, 0xAA]]"
    by code_simp
  have bytes2: "map (\<lambda>(fd, dst, packet). packet)
        (case send_probe ok_env 1 UDP 33434 7 64 1000 5 False [0xAA, 0xBB, 0xCC] 3 v4_engine of
           Inl e \<Rightarrow> [] | Inr (r, m') \<Rightarrow> sent m')
      = [[0xAA, 0xBB, 0xCC, 0xAA, 0xBB]]"
    by code_simp
  from icmp udp bytes1 bytes2 show ?thesis by blast
qed

text \<open>
  The claim as the specification states it fails for a UDP probe of negative size: there
  is no packet of \<open>S\<close> bytes, \<^verbatim>\<open>resize\<close> throws and \<open>send_probe\<close> does not return.
\<close>

theorem send_probe_packet_counterexample:
  "send_probe ok_env 1 UDP 33434 7 64 1000 (-1) False [0xAA] 1 v4_engine = Inl LengthError
   \<and> init_packet_data v4_engine (new_probe v4_engine 1 UDP 7 64 1000) (-1) [0xAA] 1 = Inl LengthError"
  by code_simp

subsection \<open>Shutdown\<close>

lemma handle_events_log [simp]:
  "delivered (handle_events evs m) = delivered m"
  "callback_set (handle_events evs m) = callback_set m"
  by (induction evs m rule: handle_events.induct) (simp_all add: read_data_def)

lemma check_timeouts_log [simp]:
  "delivered (check_timeouts tv_now m) = delivered m"
  "callback_set (check_timeouts tv_now m) = callback_set m"
  by (simp_all add: check_timeouts_def)

text \<open>
  What one iteration of the worker does, on an engine with its callback set, with the
  entries that are no longer \<open>WAITING\<close> after its receives and its timeout sweep: each
  is handed to the callback once, in the order of the table, and is gone from the table
  afterwards; the \<open>WAITING\<close> entries are not reported and stay.
\<close>

theorem loop_body_delivers_and_reaps:
  assumes "callback_set m"
  shows "\<exists>m'. loop_body it m = Inr m'
     \<and> delivered m' =
         delivered m @ filter (\<lambda>probe. status probe \<noteq> WAITING)
                         (map snd (probes (check_timeouts (sweep_now it) (handle_events (events it) m))))
     \<and> probes m' =
         filter (\<lambda>(fd, probe). status probe = WAITING)
           (probes (check_timeouts (sweep_now it) (handle_events (events it) m)))"
  using assms
  by (simp add: loop_body_def clean_probes_def clean_entries_frame send_callbacks_eq)

text \<open>
  The theorem at work: the iteration that sees the echo reply reports the probe of
  \<open>one_waiting\<close> and erases it.
\<close>

theorem loop_body_delivers_and_reaps_witness:
  "callback_set one_waiting
   \<and> map (\<lambda>(fd, probe). (id_p probe, status probe))
       (probes (check_timeouts (sweep_now reply_iteration)
                  (handle_events (events reply_iteration) one_waiting))) = [(1, SUCCESS)]
   \<and> (\<exists>m'. loop_body reply_iteration one_waiting = Inr m'
         \<and> map (\<lambda>probe. (id_p probe, status probe)) (delivered m') = [(1, SUCCESS)]
         \<and> probes m' = [])"
proof -
  have cb: "callback_set one_waiting"
    by (simp add: one_waiting_def v4_engine_def)
  have t: "probes (check_timeouts (sweep_now reply_iteration)
                  (handle_events (events reply_iteration) one_waiting)) = [(5, answered_probe)]"
    by code_simp
  have p: "id_p answered_probe = 1" "status answered_probe = SUCCESS"
    by (simp_all add: answered_probe_def echo_probe_def)
  have d: "delivered one_waiting = []"
    by (simp add: one_waiting_def v4_engine_def)
  from loop_body_delivers_and_reaps [OF cb, of reply_iteration]
  have "\<exists>m'. loop_body reply_iteration one_waiting = Inr m'
         \<and> map (\<lambda>probe. (id_p probe, status probe)) (delivered m') = [(1, SUCCESS)]
         \<and> probes m' = []"
    by (auto simp: t p d)
  with cb show ?thesis by (simp add: t p)
qed

text \<open>\<open>handler_exit\<close> makes no callback, whatever the table holds, and empties the table.\<close>

lemma handler_exit_silent:
  "delivered (handler_exit m) = delivered m \<and> probes (handler_exit m) = []"
proof -
  have "filter (\<lambda>(fd, probe). status probe = WAITING) (probes (force_timeouts m)) = []"
    by (auto simp: force_timeouts_def filter_empty_conv split: if_splits)
  then show ?thesis
    by (simp add: handler_exit_def clean_probes_def clean_entries_frame force_timeouts_def)
qed

text \<open>
  C1. \<^verbatim>\<open>stop()\<close> should have every probe that is still \<open>WAITING\<close> forced to \<open>TIMEOUT\<close>,
  handed to the callback, and only then reaped. After its loop, \<open>handler\<close> runs
  \<^verbatim>\<open>force_timeouts\<close> and \<^verbatim>\<open>clean_probes\<close>, but not \<^verbatim>\<open>send_callbacks\<close>, which each
  iteration of the loop runs between its timeout sweep and \<^verbatim>\<open>clean_probes\<close>. With one
  probe in flight and \<^verbatim>\<open>stop()\<close> called 500 ms after it was sent: the last iteration
  leaves the probe \<open>WAITING\<close>, \<^verbatim>\<open>force_timeouts\<close> makes it \<open>TIMEOUT\<close>, and \<open>handler\<close>
  returns with the table empty, descriptor 5 closed and no callback made.
\<close>

theorem stop_drops_waiting_probe:
  "send_probe ok_env 1 ICMP 0 7 64 1000 8 False [] 0 v4_engine = Inr (SEND_PROBE_SUCCESS, one_waiting)
   \<and> (case worker_loop [stop_iteration] one_waiting of
         Inl e \<Rightarrow> False
       | Inr m \<Rightarrow>
           map (\<lambda>(fd, probe). (id_p probe, status probe)) (probes m) = [(1, WAITING)]
           \<and> map (\<lambda>(fd, probe). (id_p probe, status probe)) (probes (force_timeouts m))
               = [(1, TIMEOUT)])
   \<and> (case handler True [stop_iteration] one_waiting of
         Inl e \<Rightarrow> False
       | Inr m \<Rightarrow> delivered m = [] \<and> probes m = [] \<and> closed_fds m = [5])"
  by code_simp

text \<open>
  C3. Every probe on which \<open>send_probe\<close> returns 0 should get exactly one callback
  over the life of the engine. Two probes are sent, and both calls return 0. The first is
  answered and reported in the next iteration. Then \<^verbatim>\<open>stop()\<close> is called: the second
  probe, still \<open>WAITING\<close>, is closed and erased, and the callback is never made for it.
\<close>

theorem unanswered_probe_never_reported:
  "send_probe ok_env 1 ICMP 0 7 64 1000 8 False [] 0 v4_engine = Inr (SEND_PROBE_SUCCESS, one_waiting)
   \<and> (case send_probe (ok_env\<lparr>socket_ret := 6\<rparr>) 2 ICMP 0 8 64 1000 8 False [] 0 one_waiting of
      Inl e \<Rightarrow> False
    | Inr (r, m2) \<Rightarrow>
        r = SEND_PROBE_SUCCESS
        \<and> map (\<lambda>(fd, probe). (fd, id_p probe, status probe)) (probes m2)
            = [(5, 1, WAITING), (6, 2, WAITING)]
        \<and> (case handler True [reply_iteration, stop_iteration] m2 of
              Inl e \<Rightarrow> False
            | Inr m3 \<Rightarrow>
                map (\<lambda>probe. (id_p probe, status probe)) (delivered m3) = [(1, SUCCESS)]
                \<and> length (filter (\<lambda>probe. id_p probe = 2) (delivered m3)) = 0
                \<and> probes m3 = []
                \<and> closed_fds m3 = [5, 6]))"
  by code_simp
end
